theory Spec2Isabelle
  imports Main "HOL-Library.Word"
begin

section \<open>The scoring state of a DicNode (dic\_node\_state\_scoring.h)\<close>

text \<open>
  The C++ type \<^verbatim>\<open>float\<close> is kept abstract: it is a type variable \<open>'f\<close> that
  carries only the operations the code applies to it (\<open>+\<close>, \<open>*\<close>, \<open>/\<close>, the
  comparisons, the literals \<open>0.0f\<close> and \<open>1.0f\<close>), taken from the syntactic type
  classes \<open>plus\<close>, \<open>times\<close>, \<open>inverse\<close>, \<open>ord\<close>, \<open>zero\<close> and \<open>one\<close>. These
  classes have no axioms, so nothing is assumed about rounding, infinities or NaN: what is
  proved of the definitions below holds for every interpretation of the operations, IEEE
  754 binary32 among them (the type \<open>float32\<close> below, used where a property depends on
  the arithmetic). The conversion \<^verbatim>\<open>static_cast<float>(int)\<close> is the parameter
  \<open>toFloat\<close>.

  The two counters are \<^verbatim>\<open>int16_t\<close>: 16-bit words whose \<open>+\<close> wraps around and
  which \<open>sint\<close> reads as two's complement.
\<close>

text \<open>
  The enum \<^verbatim>\<open>DoubleLetterLevel\<close> is declared in \<^verbatim>\<open>defines.h\<close>, which is not among
  the sources; these are the three enumerators the header names.
\<close>

datatype DoubleLetterLevel = NOT_A_DOUBLE_LETTER | A_DOUBLE_LETTER | A_STRONG_DOUBLE_LETTER

record 'f DicNodeStateScoring =
  mDoubleLetterLevel :: DoubleLetterLevel
  mEditCorrectionCount :: "16 word"
  mProximityCorrectionCount :: "16 word"
  mNormalizedCompoundDistance :: 'f
  mSpatialDistance :: 'f
  mLanguageDistance :: 'f
  mTotalPrevWordsLanguageCost :: 'f
  mRawLength :: 'f

text \<open>The constructor and \<^verbatim>\<open>init()\<close>.\<close>

definition init :: "('f::zero) DicNodeStateScoring" where
  "init = \<lparr> mDoubleLetterLevel = NOT_A_DOUBLE_LETTER,
            mEditCorrectionCount = 0,
            mProximityCorrectionCount = 0,
            mNormalizedCompoundDistance = 0,
            mSpatialDistance = 0,
            mLanguageDistance = 0,
            mTotalPrevWordsLanguageCost = 0,
            mRawLength = 0 \<rparr>"

text \<open>\<^verbatim>\<open>init(const DicNodeStateScoring *)\<close>: a field-by-field copy.\<close>

definition init_copy :: "'f DicNodeStateScoring \<Rightarrow> 'f DicNodeStateScoring" where
  "init_copy scoring =
     \<lparr> mDoubleLetterLevel = mDoubleLetterLevel scoring,
       mEditCorrectionCount = mEditCorrectionCount scoring,
       mProximityCorrectionCount = mProximityCorrectionCount scoring,
       mNormalizedCompoundDistance = mNormalizedCompoundDistance scoring,
       mSpatialDistance = mSpatialDistance scoring,
       mLanguageDistance = mLanguageDistance scoring,
       mTotalPrevWordsLanguageCost = mTotalPrevWordsLanguageCost scoring,
       mRawLength = mRawLength scoring \<rparr>"

text \<open>
  \<^verbatim>\<open>addDistance\<close>: both distances are accumulated first; the normalized compound
  distance is then recomputed from the accumulated values. The parameter \<open>inputSize\<close> is
  not used by the body.
\<close>

definition addDistance ::
  "(int \<Rightarrow> 'f) \<Rightarrow> 'f \<Rightarrow> 'f \<Rightarrow> bool \<Rightarrow> int \<Rightarrow> int \<Rightarrow>
   ('f::{plus,inverse}) DicNodeStateScoring \<Rightarrow> 'f DicNodeStateScoring" where
  "addDistance toFloat spatialDistance languageDistance doNormalization inputSize totalInputIndex s =
     (let s1 = s\<lparr> mSpatialDistance := mSpatialDistance s + spatialDistance \<rparr>;
          s2 = s1\<lparr> mLanguageDistance := mLanguageDistance s1 + languageDistance \<rparr>
      in if \<not> doNormalization
         then s2\<lparr> mNormalizedCompoundDistance := mSpatialDistance s2 + mLanguageDistance s2 \<rparr>
         else s2\<lparr> mNormalizedCompoundDistance :=
                    (mSpatialDistance s2 + mLanguageDistance s2) / toFloat (max 1 totalInputIndex) \<rparr>)"

definition setTotalPrevWordsLanguageCost ::
  "'f \<Rightarrow> 'f DicNodeStateScoring \<Rightarrow> 'f DicNodeStateScoring" where
  "setTotalPrevWordsLanguageCost totalPrevWordsLanguageCost s =
     s\<lparr> mTotalPrevWordsLanguageCost := totalPrevWordsLanguageCost \<rparr>"

text \<open>
  \<^verbatim>\<open>addCost\<close>: the distance update, then the two counters (\<^verbatim>\<open>++\<close> on an
  \<^verbatim>\<open>int16_t\<close>), then the language cost of the previous words, added only when the
  cost compares greater than \<^verbatim>\<open>0.0f\<close>.
\<close>

definition addCost ::
  "(int \<Rightarrow> 'f) \<Rightarrow> 'f \<Rightarrow> 'f \<Rightarrow> bool \<Rightarrow> int \<Rightarrow> int \<Rightarrow> bool \<Rightarrow> bool \<Rightarrow>
   ('f::{plus,inverse,zero,ord}) DicNodeStateScoring \<Rightarrow> 'f DicNodeStateScoring" where
  "addCost toFloat spatialCost languageCost doNormalization inputSize totalInputIndex
       isEditCorrection isProximityCorrection s =
     (let s1 = addDistance toFloat spatialCost languageCost doNormalization inputSize
                 totalInputIndex s;
          s2 = (if isEditCorrection
                then s1\<lparr> mEditCorrectionCount := mEditCorrectionCount s1 + 1 \<rparr> else s1);
          s3 = (if isProximityCorrection
                then s2\<lparr> mProximityCorrectionCount := mProximityCorrectionCount s2 + 1 \<rparr>
                else s2)
      in if 0 < languageCost
         then setTotalPrevWordsLanguageCost (mTotalPrevWordsLanguageCost s3 + languageCost) s3
         else s3)"

definition addRawLength :: "'f \<Rightarrow> ('f::plus) DicNodeStateScoring \<Rightarrow> 'f DicNodeStateScoring" where
  "addRawLength rawLength s = s\<lparr> mRawLength := mRawLength s + rawLength \<rparr>"

text \<open>\<^verbatim>\<open>getCompoundDistance(languageWeight)\<close> and its overload without argument.\<close>

definition getCompoundDistanceW :: "'f \<Rightarrow> ('f::{plus,times}) DicNodeStateScoring \<Rightarrow> 'f" where
  "getCompoundDistanceW languageWeight s = mSpatialDistance s + mLanguageDistance s * languageWeight"

definition getCompoundDistance :: "('f::{plus,times,one}) DicNodeStateScoring \<Rightarrow> 'f" where
  "getCompoundDistance s = getCompoundDistanceW 1 s"

text \<open>
  \<^verbatim>\<open>setDoubleLetterLevel\<close>: the \<^verbatim>\<open>switch\<close> over the argument, case by case.
\<close>

fun setDoubleLetterLevel :: "DoubleLetterLevel \<Rightarrow> 'f DicNodeStateScoring \<Rightarrow> 'f DicNodeStateScoring" where
  "setDoubleLetterLevel NOT_A_DOUBLE_LETTER s = s"
| "setDoubleLetterLevel A_DOUBLE_LETTER s =
     (if mDoubleLetterLevel s \<noteq> A_STRONG_DOUBLE_LETTER
      then s\<lparr> mDoubleLetterLevel := A_DOUBLE_LETTER \<rparr> else s)"
| "setDoubleLetterLevel A_STRONG_DOUBLE_LETTER s = s\<lparr> mDoubleLetterLevel := A_STRONG_DOUBLE_LETTER \<rparr>"

text \<open>
  Modelled from the spec: the order of the levels. The declaration of the enum is missing;
  the spec gives the levels as NONE, WEAK, STRONG, with transitions "monotone toward
  STRONG". \<open>levelRank\<close> numbers them in that order; "never decreases" is read in these
  numbers.
\<close>

fun levelRank :: "DoubleLetterLevel \<Rightarrow> nat" where
  "levelRank NOT_A_DOUBLE_LETTER = 0"
| "levelRank A_DOUBLE_LETTER = 1"
| "levelRank A_STRONG_DOUBLE_LETTER = 2"

text \<open>A sequence of \<^verbatim>\<open>setDoubleLetterLevel\<close> calls, first call first.\<close>

fun setDoubleLetterLevels :: "DoubleLetterLevel list \<Rightarrow> 'f DicNodeStateScoring \<Rightarrow> 'f DicNodeStateScoring" where
  "setDoubleLetterLevels [] s = s"
| "setDoubleLetterLevels (l # ls) s = setDoubleLetterLevels ls (setDoubleLetterLevel l s)"

section \<open>IEEE 754 binary32\<close>

text \<open>
  Where a property of the scoring state depends on what float addition and comparison do,
  the type variable \<open>'f\<close> is instantiated with the C++ \<^verbatim>\<open>float\<close> of the platform, the
  IEEE 754 binary32 format in the default rounding mode (to nearest, ties to even): a sign
  bit, 8 bits of biased exponent, 23 bits of fraction. Every bit pattern is a value of the
  type.
\<close>

datatype float32 = Float32 (sign: bool) (exponent: "8 word") (fraction: "23 word")

text \<open>NaN: all exponent bits set and a fraction other than 0; infinity: fraction 0.\<close>

definition isNaN :: "float32 \<Rightarrow> bool" where
  "isNaN x = (unat (exponent x) = 255 \<and> unat (fraction x) \<noteq> 0)"

definition isInf :: "float32 \<Rightarrow> bool" where
  "isInf x = (unat (exponent x) = 255 \<and> unat (fraction x) = 0)"

text \<open>
  The magnitude in units of \<open>2 ^ -149\<close>: \<open>(2 ^ 23 + f) * 2 ^ (e - 1)\<close> for a normal number,
  \<open>f\<close> for a subnormal one (\<open>e = 0\<close>). The same formula gives an infinity \<open>2 ^ 277\<close>,
  above every finite magnitude, so the order on these integers is the order of the
  numbers. \<open>sval\<close> is the magnitude with the sign.
\<close>

definition mag :: "float32 \<Rightarrow> nat" where
  "mag x = ((if unat (exponent x) = 0 then 0 else 2 ^ 23) + unat (fraction x))
             * 2 ^ (unat (exponent x) - 1)"

definition sval :: "float32 \<Rightarrow> int" where
  "sval x = (if sign x then - int (mag x) else int (mag x))"

text \<open>The quiet NaN an invalid operation returns, and the two infinities.\<close>

definition NaN32 :: float32 where
  "NaN32 = Float32 False 255 (2 ^ 22)"

definition Inf32 :: "bool \<Rightarrow> float32" where
  "Inf32 s = Float32 s 255 0"

text \<open>The number of binary digits of a natural number.\<close>

fun bitlength :: "nat \<Rightarrow> nat" where
  "bitlength n = (if n = 0 then 0 else Suc (bitlength (n div 2)))"

declare bitlength.simps [simp del]

text \<open>
  \<open>encode s n k\<close> is the float with sign \<open>s\<close> and magnitude \<open>n * 2 ^ k\<close>, for a
  significand \<open>n \<le> 2 ^ 24\<close> (subnormal when \<open>n < 2 ^ 23\<close>, which occurs for \<open>k = 0\<close>
  only); an exponent out of range gives infinity.
\<close>

definition encode :: "bool \<Rightarrow> nat \<Rightarrow> nat \<Rightarrow> float32" where
  "encode s n k =
     (if n < 2 ^ 23 then Float32 s 0 (of_nat n)
      else if n = 2 ^ 24
           then (if k + 2 \<ge> 255 then Inf32 s else Float32 s (of_nat (k + 2)) 0)
           else (if k + 1 \<ge> 255 then Inf32 s else Float32 s (of_nat (k + 1)) (of_nat (n - 2 ^ 23))))"

text \<open>
  Rounding to nearest, ties to even, of the positive rational \<open>p / q\<close> (in units of
  \<open>2 ^ -149\<close>): \<open>k\<close> is chosen so that the significand \<open>n\<close> has 24 bits (or \<open>k = 0\<close>
  below that), \<open>r\<close> is what is cut off, compared with half a unit in the last place \<open>d\<close>.
\<close>

definition round_ratio :: "bool \<Rightarrow> nat \<Rightarrow> nat \<Rightarrow> float32" where
  "round_ratio s p q =
     (let w = p div q;
          k = (if w < 2 ^ 24 then 0 else bitlength w - 24);
          d = q * 2 ^ k;
          n = p div d;
          r = p mod d;
          n' = (if 2 * r < d then n else if d < 2 * r then n + 1
                else if even n then n else n + 1)
      in encode s n' k)"

text \<open>The two zeros; and the rounding of a whole number of units.\<close>

definition isZero :: "float32 \<Rightarrow> bool" where
  "isZero x = (mag x = 0)"

definition round_nat :: "bool \<Rightarrow> nat \<Rightarrow> float32" where
  "round_nat s p = round_ratio s p 1"

text \<open>
  Addition: NaN and infinities first; two finite numbers are added exactly and the sum
  is rounded; an exact zero sum is \<open>-0\<close> only for \<open>-0 + -0\<close>.
\<close>

definition f32_add :: "float32 \<Rightarrow> float32 \<Rightarrow> float32" where
  "f32_add a b =
     (if isNaN a \<or> isNaN b then NaN32
      else if isInf a then (if isInf b \<and> sign a \<noteq> sign b then NaN32 else a)
      else if isInf b then b
      else if sval a + sval b = 0 then Float32 (sign a \<and> sign b) 0 0
      else round_nat (sval a + sval b < 0) (nat \<bar>sval a + sval b\<bar>))"

text \<open>
  Multiplication: the special cases, then the rounded product of the magnitudes (in units
  of \<open>2 ^ -298\<close>, so divided by \<open>2 ^ 149\<close>).
\<close>

definition f32_mul :: "float32 \<Rightarrow> float32 \<Rightarrow> float32" where
  "f32_mul a b =
     (if isNaN a \<or> isNaN b then NaN32
      else if isInf a \<or> isInf b
           then (if isZero a \<or> isZero b then NaN32 else Inf32 (sign a \<noteq> sign b))
      else round_ratio (sign a \<noteq> sign b) (mag a * mag b) (2 ^ 149))"

text \<open>Division: the special cases, then the rounded quotient of the magnitudes.\<close>

definition f32_div :: "float32 \<Rightarrow> float32 \<Rightarrow> float32" where
  "f32_div a b =
     (if isNaN a \<or> isNaN b then NaN32
      else if isInf a then (if isInf b then NaN32 else Inf32 (sign a \<noteq> sign b))
      else if isInf b then Float32 (sign a \<noteq> sign b) 0 0
      else if isZero b then (if isZero a then NaN32 else Inf32 (sign a \<noteq> sign b))
      else round_ratio (sign a \<noteq> sign b) (mag a * 2 ^ 149) (mag b))"

text \<open>The comparisons \<^verbatim>\<open><=\<close> and \<^verbatim>\<open><\<close>: false when an operand is NaN.\<close>

definition f32_le :: "float32 \<Rightarrow> float32 \<Rightarrow> bool" where
  "f32_le a b = (\<not> isNaN a \<and> \<not> isNaN b \<and> sval a \<le> sval b)"

definition f32_lt :: "float32 \<Rightarrow> float32 \<Rightarrow> bool" where
  "f32_lt a b = (\<not> isNaN a \<and> \<not> isNaN b \<and> sval a < sval b)"

text \<open>
  With these operations \<open>float32\<close> is an instance of the classes the scoring state uses
  for its floats.
\<close>

instantiation float32 :: "{zero, one, plus, times, inverse, ord}"
begin

definition zero_float32 :: float32 where
  "zero_float32 = Float32 False 0 0"

definition one_float32 :: float32 where
  "one_float32 = Float32 False 127 0"

definition times_float32 :: "float32 \<Rightarrow> float32 \<Rightarrow> float32" where
  "times_float32 = f32_mul"

definition plus_float32 :: "float32 \<Rightarrow> float32 \<Rightarrow> float32" where
  "plus_float32 = f32_add"

definition divide_float32 :: "float32 \<Rightarrow> float32 \<Rightarrow> float32" where
  "divide_float32 = f32_div"

definition inverse_float32 :: "float32 \<Rightarrow> float32" where
  "inverse_float32 = f32_div (Float32 False 127 0)"

definition less_eq_float32 :: "float32 \<Rightarrow> float32 \<Rightarrow> bool" where
  "less_eq_float32 = f32_le"

definition less_float32 :: "float32 \<Rightarrow> float32 \<Rightarrow> bool" where
  "less_float32 = f32_lt"

instance ..

end

text \<open>\<^verbatim>\<open>static_cast<float>(int)\<close>: the integer, rounded.\<close>

definition f32_of_int :: "int \<Rightarrow> float32" where
  "f32_of_int i = (if i = 0 then Float32 False 0 0 else round_nat (i < 0) (nat \<bar>i\<bar> * 2 ^ 149))"

section \<open>The suggest driver (suggest.cpp)\<close>

text \<open>
  \<^verbatim>\<open>suggest.cpp\<close> drives classes whose sources are not part of the repository as
  given: \<^verbatim>\<open>DicNode\<close>, \<^verbatim>\<open>DicNodeUtils\<close>, \<^verbatim>\<open>DicTraverseSession\<close> with its
  \<^verbatim>\<open>DicNodesCache\<close>, \<^verbatim>\<open>TerminalAttributes\<close>, \<^verbatim>\<open>ShortcutUtils\<close>, the three
  policies \<^verbatim>\<open>TRAVERSAL\<close>, \<^verbatim>\<open>SCORING\<close>, \<^verbatim>\<open>WEIGHTING\<close>, and the macros of
  \<^verbatim>\<open>defines.h\<close>. None of them is guessed: a DicNode is a value of a type variable
  \<open>'n\<close>, the traverse session (with the cache it owns) a value of \<open>'s\<close>, a
  \<^verbatim>\<open>TerminalAttributes\<close> object a value of \<open>'a\<close>, a \<^verbatim>\<open>ProximityInfo\<close> a value of
  \<open>'p\<close>, and every method the driver calls is a field of one of the records below.
  A method that changes the object it is called on returns the new object; a method that
  fills a result through a pointer returns the result. What is proved of the driver then
  holds for every implementation of these classes.

  An \<^verbatim>\<open>int\<close> is a HOL integer: the driver's own arithmetic on them is an increment of
  an index below \<^verbatim>\<open>MAX_RESULTS\<close>, its product with \<^verbatim>\<open>MAX_WORD_LENGTH\<close> and
  \<^verbatim>\<open>max\<close>. An \<^verbatim>\<open>int *\<close> output buffer is a function from indices to values.
\<close>

type_synonym int_array = "int \<Rightarrow> int"

text \<open>
  The enums \<^verbatim>\<open>ProximityType\<close> and \<^verbatim>\<open>CorrectionType\<close> (also of \<^verbatim>\<open>defines.h\<close>):
  the enumerators that \<^verbatim>\<open>suggest.cpp\<close> names. The \<^verbatim>\<open>switch\<close> over the proximity
  type has a \<^verbatim>\<open>default\<close> branch, for which \<open>OTHER_PROXIMITY_TYPE\<close> stands.
\<close>

datatype ProximityType =
  MATCH_CHAR | PROXIMITY_CHAR | ADDITIONAL_PROXIMITY_CHAR | SUBSTITUTION_CHAR | UNRELATED_CHAR
  | OTHER_PROXIMITY_TYPE int

datatype CorrectionType =
  CT_MATCH | CT_ADDITIONAL_PROXIMITY | CT_SUBSTITUTION | CT_OMISSION | CT_INSERTION
  | CT_TRANSPOSITION | CT_COMPLETION | CT_TERMINAL | CT_NEW_WORD | CT_SPACE_SUBSTITUTION

text \<open>The four output buffers of \<^verbatim>\<open>getSuggestions\<close>.\<close>

record Outputs =
  outputCodePoints :: int_array
  frequencies :: int_array
  spaceIndices :: int_array
  outputTypes :: int_array

text \<open>The methods of \<^verbatim>\<open>TRAVERSAL\<close> that the driver calls.\<close>

record ('f, 'n, 's) Traversal =
  getMaxSpatialDistance :: 'f
  getMaxPointerCount :: int
  getMaxCacheSize :: int
  allowPartialCommit :: bool
  needsToTraverseAllUserInput :: bool
  shouldDepthLevelCache :: "'s \<Rightarrow> bool"
  shouldNodeLevelCache :: "'s \<Rightarrow> 'n \<Rightarrow> bool"
  canDoLookAheadCorrection :: "'s \<Rightarrow> 'n \<Rightarrow> bool"
  allowsErrorCorrections :: "'n \<Rightarrow> bool"
  isSpaceSubstitutionTerminal :: "'s \<Rightarrow> 'n \<Rightarrow> bool"
  isSpaceOmissionTerminal :: "'s \<Rightarrow> 'n \<Rightarrow> bool"
  isOmission :: "'s \<Rightarrow> 'n \<Rightarrow> 'n \<Rightarrow> bool"
  isPossibleOmissionChildNode :: "'s \<Rightarrow> 'n \<Rightarrow> 'n \<Rightarrow> bool"
  getProximityType :: "'s \<Rightarrow> 'n \<Rightarrow> 'n \<Rightarrow> ProximityType"
  isGoodToTraverseNextWord :: "'n \<Rightarrow> bool"
  sameAsTyped :: "'s \<Rightarrow> 'n \<Rightarrow> bool"

text \<open>
  The methods of \<^verbatim>\<open>SCORING\<close>. \<^verbatim>\<open>getMostProbableString\<close> and
  \<^verbatim>\<open>safetyNetForMostProbableString\<close> are handed pointers into the output buffers and
  return the buffers as they leave them; \<^verbatim>\<open>searchWordWithDoubleLetter\<close> is handed the
  two locals it may overwrite and returns their new values.
\<close>

record ('f, 'n, 's) Scoring =
  getAdjustedLanguageWeight :: "'s \<Rightarrow> 'n list \<Rightarrow> int \<Rightarrow> 'f"
  getMostProbableString :: "'s \<Rightarrow> int \<Rightarrow> 'f \<Rightarrow> Outputs \<Rightarrow> bool \<times> Outputs"
  searchWordWithDoubleLetter ::
    "'n list \<Rightarrow> int \<Rightarrow> int \<Rightarrow> DoubleLetterLevel \<Rightarrow> int \<times> DoubleLetterLevel"
  getDoubleLetterDemotionDistanceCost :: "int \<Rightarrow> int \<Rightarrow> DoubleLetterLevel \<Rightarrow> 'f"
  calculateFinalScore :: "'f \<Rightarrow> int \<Rightarrow> bool \<Rightarrow> int"
  doesAutoCorrectValidWord :: bool
  safetyNetForMostProbableString :: "int \<Rightarrow> int \<Rightarrow> Outputs \<Rightarrow> Outputs"

text \<open>
  \<^verbatim>\<open>Weighting::addCostAndForwardInputIndex(WEIGHTING, type, session, parent, node,
  bigramCacheMap)\<close>: the parent is optional (the driver passes 0 for "none"), the last
  argument says whether the session's bigram cache map is passed (or 0). It returns the
  node it has weighted, and the session, whose bigram cache map it may have filled.
\<close>

record ('n, 's) Weighting =
  addCostAndForwardInputIndex ::
    "CorrectionType \<Rightarrow> 's \<Rightarrow> 'n option \<Rightarrow> 'n \<Rightarrow> bool \<Rightarrow> 'n \<times> 's"

text \<open>
  The methods of \<^verbatim>\<open>DicNode\<close>, the static functions of \<^verbatim>\<open>DicNodeUtils\<close> (which
  read the dictionary and the proximity state from the session), \<^verbatim>\<open>TerminalAttributes\<close>
  (built from the session's dictionary and the node's flags and attributes position) and
  \<^verbatim>\<open>ShortcutUtils::outputShortcuts\<close>, which returns the new output word index and the
  buffers.
\<close>

record ('f, 'n, 's, 'a) DicNodeOps =
  isTotalInputSizeExceedingLimit :: "'n \<Rightarrow> bool"
  getInputIndex :: "'n \<Rightarrow> int \<Rightarrow> int"
  isCompletion :: "'n \<Rightarrow> int \<Rightarrow> bool"
  setCached :: "'n \<Rightarrow> 'n"
  getCompoundDistance_node :: "'n \<Rightarrow> 'f"
  getCompoundDistanceW_node :: "'n \<Rightarrow> 'f \<Rightarrow> 'f"
  isTerminalWordNode :: "'n \<Rightarrow> bool"
  shouldBeFilterdBySafetyNetForBigram :: "'n \<Rightarrow> bool"
  hasMultipleWords :: "'n \<Rightarrow> bool"
  hasChildren :: "'n \<Rightarrow> bool"
  isZeroCostOmission :: "'n \<Rightarrow> bool"
  getPrevWordNodePos :: "'n \<Rightarrow> int"
  getProbability :: "'n \<Rightarrow> int"
  outputSpacePositionsResult :: "'n \<Rightarrow> int_array \<Rightarrow> int_array"
  outputResult :: "'n \<Rightarrow> int \<Rightarrow> int_array \<Rightarrow> int_array"
  initByCopy :: "'n \<Rightarrow> 'n"
  DicNodeUtils_initByCopy :: "'n \<Rightarrow> 'n"
  initAsRoot :: "'s \<Rightarrow> int \<Rightarrow> 'n"
  initAsRootWithPreviousWord :: "'s \<Rightarrow> 'n \<Rightarrow> 'n"
  getAllChildDicNodes :: "'n \<Rightarrow> 's \<Rightarrow> 'n list"
  getProximityChildDicNodes :: "'n \<Rightarrow> 's \<Rightarrow> int \<Rightarrow> bool \<Rightarrow> 'n list"
  TerminalAttributes :: "'s \<Rightarrow> 'n \<Rightarrow> 'a"
  isBlacklistedOrNotAWord :: "'a \<Rightarrow> bool"
  outputShortcuts :: "'a \<Rightarrow> int \<Rightarrow> int \<Rightarrow> Outputs \<Rightarrow> bool \<Rightarrow> int \<times> Outputs"

text \<open>
  The methods of \<^verbatim>\<open>DicTraverseSession\<close> and, from \<open>activeSize\<close> on, of the
  \<^verbatim>\<open>DicNodesCache\<close> that \<^verbatim>\<open>getDicTraverseCache()\<close> returns.
  \<open>proximityInfoState0_isUsed\<close> is \<^verbatim>\<open>getProximityInfoState(0)->isUsed()\<close>. The pops
  return the node they store through their pointer argument; \<open>setCommitPoint\<close> returns
  the node it points to.
\<close>

record ('f, 'n, 's, 'p) SessionOps =
  setupForGetSuggestions ::
    "'p \<Rightarrow> int_array \<Rightarrow> int \<Rightarrow> int_array \<Rightarrow> int_array \<Rightarrow> int_array \<Rightarrow> int_array
      \<Rightarrow> 'f \<Rightarrow> int \<Rightarrow> 's \<Rightarrow> 's"
  proximityInfoState0_isUsed :: "'s \<Rightarrow> bool"
  getInputSize :: "'s \<Rightarrow> int"
  isContinuousSuggestionPossible :: "'s \<Rightarrow> bool"
  getPrevWordPos :: "'s \<Rightarrow> int"
  setPrevWordPos :: "int \<Rightarrow> 's \<Rightarrow> 's"
  isPartiallyCommited :: "'s \<Rightarrow> bool"
  setPartiallyCommited :: "'s \<Rightarrow> 's"
  resetCache :: "int \<Rightarrow> int \<Rightarrow> 's \<Rightarrow> 's"
  activeSize :: "'s \<Rightarrow> int"
  terminalSize :: "'s \<Rightarrow> int"
  popActive :: "'s \<Rightarrow> 'n \<times> 's"
  popTerminal :: "'s \<Rightarrow> 'n \<times> 's"
  copyPushActive :: "'n \<Rightarrow> 's \<Rightarrow> 's"
  copyPushNextActive :: "'n \<Rightarrow> 's \<Rightarrow> 's"
  copyPushTerminal :: "'n \<Rightarrow> 's \<Rightarrow> 's"
  copyPushContinue :: "'n \<Rightarrow> 's \<Rightarrow> 's"
  continueSearch :: "'s \<Rightarrow> 's"
  setCommitPoint :: "int \<Rightarrow> 's \<Rightarrow> 'n \<times> 's"
  advanceActiveDicNodes :: "'s \<Rightarrow> 's"
  advanceInputIndex :: "int \<Rightarrow> 's \<Rightarrow> 's"
  updateLastCachedInputIndex :: "'s \<Rightarrow> 's"
  isLookAheadCorrectionInputIndex :: "'s \<Rightarrow> int \<Rightarrow> bool"

text \<open>
  The \<^verbatim>\<open>Suggest\<close> object with its three policies, the classes above, the macros
  \<^verbatim>\<open>MAX_RESULTS\<close>, \<^verbatim>\<open>MAX_WORD_LENGTH\<close>, \<^verbatim>\<open>MAX_VALUE_FOR_WEIGHTING\<close> and
  \<^verbatim>\<open>S_INT_MIN\<close> of \<^verbatim>\<open>defines.h\<close>, the constant \<^verbatim>\<open>Dictionary::KIND_CORRECTION\<close>,
  and the conversion \<^verbatim>\<open>static_cast<float>(int)\<close>.
\<close>

record ('f, 'n, 's, 'a, 'p) Suggest =
  TRAVERSAL :: "('f, 'n, 's) Traversal"
  SCORING :: "('f, 'n, 's) Scoring"
  WEIGHTING :: "('n, 's) Weighting"
  DICNODE :: "('f, 'n, 's, 'a) DicNodeOps"
  SESSION :: "('f, 'n, 's, 'p) SessionOps"
  MAX_RESULTS :: int
  MAX_WORD_LENGTH :: int
  MAX_VALUE_FOR_WEIGHTING :: int
  S_INT_MIN :: int
  KIND_CORRECTION :: int
  toFloat :: "int \<Rightarrow> 'f"

text \<open>The class constants that \<^verbatim>\<open>suggest.cpp\<close> initializes and uses.\<close>

definition MIN_LEN_FOR_MULTI_WORD_AUTOCORRECT :: int where
  "MIN_LEN_FOR_MULTI_WORD_AUTOCORRECT = 16"

definition MIN_CONTINUOUS_SUGGESTION_INPUT_SIZE :: int where
  "MIN_CONTINUOUS_SUGGESTION_INPUT_SIZE = 2"

definition CORRECT_TRANSPOSITION :: bool where
  "CORRECT_TRANSPOSITION = True"

definition CORRECT_INSERTION :: bool where
  "CORRECT_INSERTION = True"

text \<open>
  \<^verbatim>\<open>const int16_t pointIndex = dicNode->getInputIndex(0)\<close>: the conversion of an
  \<^verbatim>\<open>int\<close> to \<^verbatim>\<open>int16_t\<close>.
\<close>

definition to_int16 :: "int \<Rightarrow> int" where
  "to_int16 i = sint (word_of_int i :: 16 word)"

subsection \<open>initializeSearch\<close>

definition initializeSearch ::
  "('f, 'n, 's, 'a, 'p) Suggest \<Rightarrow> 's \<Rightarrow> int \<Rightarrow> 's" where
  "initializeSearch E traverseSession commitPoint0 =
     (if \<not> proximityInfoState0_isUsed (SESSION E) traverseSession then traverseSession
      else
        let commitPoint = (if allowPartialCommit (TRAVERSAL E) then 0 else commitPoint0) in
        if getInputSize (SESSION E) traverseSession > MIN_CONTINUOUS_SUGGESTION_INPUT_SIZE
           \<and> isContinuousSuggestionPossible (SESSION E) traverseSession
        then
          (if commitPoint = 0 then continueSearch (SESSION E) traverseSession
           else
             (case setCommitPoint (SESSION E) commitPoint traverseSession of
                (topDicNode, s1) \<Rightarrow>
                  setPartiallyCommited (SESSION E)
                    (continueSearch (SESSION E)
                      (setPrevWordPos (SESSION E) (getPrevWordNodePos (DICNODE E) topDicNode) s1))))
        else
          (let s1 = resetCache (SESSION E) (getMaxCacheSize (TRAVERSAL E)) (MAX_RESULTS E)
                      traverseSession;
               rootNode = initAsRoot (DICNODE E) s1 (getPrevWordPos (SESSION E) s1)
           in copyPushActive (SESSION E) rootNode s1))"

subsection \<open>Terminal nodes, expanded nodes and next-word nodes\<close>

text \<open>
  \<^verbatim>\<open>createNextWordDicNode\<close>: a new root-like node after the word that ends in
  \<open>dicNode\<close>, weighted as a new word (with the session's bigram cache map), weighted
  again for a space substitution, and pushed into the next-active queue.
\<close>

definition createNextWordDicNode ::
  "('f, 'n, 's, 'a, 'p) Suggest \<Rightarrow> 's \<Rightarrow> 'n \<Rightarrow> bool \<Rightarrow> 's" where
  "createNextWordDicNode E traverseSession dicNode spaceSubstitution =
     (if \<not> isGoodToTraverseNextWord (TRAVERSAL E) dicNode then traverseSession
      else
        let newDicNode = initAsRootWithPreviousWord (DICNODE E) traverseSession dicNode in
        (case addCostAndForwardInputIndex (WEIGHTING E) CT_NEW_WORD traverseSession
                (Some dicNode) newDicNode True of
           (newDicNode1, s1) \<Rightarrow>
             (case (if spaceSubstitution
                    then addCostAndForwardInputIndex (WEIGHTING E) CT_SPACE_SUBSTITUTION s1
                           None newDicNode1 False
                    else (newDicNode1, s1)) of
                (newDicNode2, s2) \<Rightarrow> copyPushNextActive (SESSION E) newDicNode2 s2)))"

text \<open>
  \<^verbatim>\<open>processTerminalDicNode\<close>: four early returns, then a copy of the node is weighted
  as a terminal and pushed into the terminal queue. The node itself is not changed.
\<close>

definition processTerminalDicNode ::
  "('f::ord, 'n, 's, 'a, 'p) Suggest \<Rightarrow> 's \<Rightarrow> 'n \<Rightarrow> 's" where
  "processTerminalDicNode E traverseSession dicNode =
     (if getCompoundDistance_node (DICNODE E) dicNode \<ge> toFloat E (MAX_VALUE_FOR_WEIGHTING E)
      then traverseSession
      else if \<not> isTerminalWordNode (DICNODE E) dicNode then traverseSession
      else if needsToTraverseAllUserInput (TRAVERSAL E)
              \<and> getInputIndex (DICNODE E) dicNode 0 < getInputSize (SESSION E) traverseSession
      then traverseSession
      else if shouldBeFilterdBySafetyNetForBigram (DICNODE E) dicNode then traverseSession
      else
        let terminalDicNode = DicNodeUtils_initByCopy (DICNODE E) dicNode in
        (case addCostAndForwardInputIndex (WEIGHTING E) CT_TERMINAL traverseSession None
                terminalDicNode True of
           (terminalDicNode1, s1) \<Rightarrow> copyPushTerminal (SESSION E) terminalDicNode1 s1))"

text \<open>
  \<^verbatim>\<open>processExpandedDicNode\<close>. \<^verbatim>\<open>DicNode::managedDelete\<close> releases the node object;
  it touches neither the session nor its cache, and the node is not used afterwards.
\<close>

definition processExpandedDicNode ::
  "('f::ord, 'n, 's, 'a, 'p) Suggest \<Rightarrow> 's \<Rightarrow> 'n \<Rightarrow> 's" where
  "processExpandedDicNode E traverseSession dicNode =
     (let s1 = processTerminalDicNode E traverseSession dicNode in
      if getCompoundDistance_node (DICNODE E) dicNode < toFloat E (MAX_VALUE_FOR_WEIGHTING E)
      then
        let s2 = (if isSpaceOmissionTerminal (TRAVERSAL E) s1 dicNode
                  then createNextWordDicNode E s1 dicNode False else s1);
            allowsLookAhead = (\<not> (hasMultipleWords (DICNODE E) dicNode
                                    \<and> isCompletion (DICNODE E) dicNode (getInputSize (SESSION E) s2)))
        in if hasChildren (DICNODE E) dicNode \<and> allowsLookAhead
           then copyPushNextActive (SESSION E) dicNode s2 else s2
      else s1)"

subsection \<open>The correction operators\<close>

text \<open>\<^verbatim>\<open>weightChildNode\<close>: the node is weighted in place; the weighted node is returned.\<close>

definition weightChildNode ::
  "('f, 'n, 's, 'a, 'p) Suggest \<Rightarrow> 's \<Rightarrow> 'n \<Rightarrow> 'n \<times> 's" where
  "weightChildNode E traverseSession dicNode =
     (let inputSize = getInputSize (SESSION E) traverseSession in
      if isCompletion (DICNODE E) dicNode inputSize
      then addCostAndForwardInputIndex (WEIGHTING E) CT_COMPLETION traverseSession None dicNode False
      else addCostAndForwardInputIndex (WEIGHTING E) CT_MATCH traverseSession None dicNode False)"

definition processDicNodeAsMatch ::
  "('f::ord, 'n, 's, 'a, 'p) Suggest \<Rightarrow> 's \<Rightarrow> 'n \<Rightarrow> 's" where
  "processDicNodeAsMatch E traverseSession childDicNode =
     (case weightChildNode E traverseSession childDicNode of
        (childDicNode1, s1) \<Rightarrow> processExpandedDicNode E s1 childDicNode1)"

definition processDicNodeAsAdditionalProximityChar ::
  "('f::ord, 'n, 's, 'a, 'p) Suggest \<Rightarrow> 's \<Rightarrow> 'n \<Rightarrow> 'n \<Rightarrow> 's" where
  "processDicNodeAsAdditionalProximityChar E traverseSession dicNode childDicNode =
     (case addCostAndForwardInputIndex (WEIGHTING E) CT_ADDITIONAL_PROXIMITY traverseSession
             (Some dicNode) childDicNode False of
        (childDicNode1, s1) \<Rightarrow>
          (case weightChildNode E s1 childDicNode1 of
             (childDicNode2, s2) \<Rightarrow> processExpandedDicNode E s2 childDicNode2))"

definition processDicNodeAsSubstitution ::
  "('f::ord, 'n, 's, 'a, 'p) Suggest \<Rightarrow> 's \<Rightarrow> 'n \<Rightarrow> 'n \<Rightarrow> 's" where
  "processDicNodeAsSubstitution E traverseSession dicNode childDicNode =
     (case addCostAndForwardInputIndex (WEIGHTING E) CT_SUBSTITUTION traverseSession
             (Some dicNode) childDicNode False of
        (childDicNode1, s1) \<Rightarrow>
          (case weightChildNode E s1 childDicNode1 of
             (childDicNode2, s2) \<Rightarrow> processExpandedDicNode E s2 childDicNode2))"

text \<open>
  \<^verbatim>\<open>processDicNodeAsOmission\<close>: the \<^verbatim>\<open>for\<close> loop over the children of the omitted
  node is \<open>omissionChildren\<close>; a child that is not a possible omission child is deleted
  and skipped (\<^verbatim>\<open>continue\<close>).
\<close>

fun omissionChildren ::
  "('f::ord, 'n, 's, 'a, 'p) Suggest \<Rightarrow> 'n \<Rightarrow> bool \<Rightarrow> 'n list \<Rightarrow> 's \<Rightarrow> 's" where
  "omissionChildren E dicNode isZeroCost [] traverseSession = traverseSession"
| "omissionChildren E dicNode isZeroCost (childDicNode # rest) traverseSession =
     (case (if \<not> isZeroCost
            then addCostAndForwardInputIndex (WEIGHTING E) CT_OMISSION traverseSession
                   (Some dicNode) childDicNode False
            else (childDicNode, traverseSession)) of
        (childDicNode1, s1) \<Rightarrow>
          (case weightChildNode E s1 childDicNode1 of
             (childDicNode2, s2) \<Rightarrow>
               omissionChildren E dicNode isZeroCost rest
                 (if \<not> isPossibleOmissionChildNode (TRAVERSAL E) s2 dicNode childDicNode2
                  then s2
                  else processExpandedDicNode E s2 childDicNode2)))"

definition processDicNodeAsOmission ::
  "('f::ord, 'n, 's, 'a, 'p) Suggest \<Rightarrow> 's \<Rightarrow> 'n \<Rightarrow> 's" where
  "processDicNodeAsOmission E traverseSession dicNode =
     (let isZeroCost = isZeroCostOmission (DICNODE E) dicNode;
          childDicNodes = getAllChildDicNodes (DICNODE E) dicNode traverseSession
      in omissionChildren E dicNode isZeroCost childDicNodes traverseSession)"

text \<open>\<^verbatim>\<open>processDicNodeAsInsertion\<close> and its loop over the proximity children.\<close>

fun insertionChildren ::
  "('f::ord, 'n, 's, 'a, 'p) Suggest \<Rightarrow> 'n \<Rightarrow> 'n list \<Rightarrow> 's \<Rightarrow> 's" where
  "insertionChildren E dicNode [] traverseSession = traverseSession"
| "insertionChildren E dicNode (childDicNode # rest) traverseSession =
     (case addCostAndForwardInputIndex (WEIGHTING E) CT_INSERTION traverseSession
             (Some dicNode) childDicNode False of
        (childDicNode1, s1) \<Rightarrow>
          insertionChildren E dicNode rest (processExpandedDicNode E s1 childDicNode1))"

definition processDicNodeAsInsertion ::
  "('f::ord, 'n, 's, 'a, 'p) Suggest \<Rightarrow> 's \<Rightarrow> 'n \<Rightarrow> 's" where
  "processDicNodeAsInsertion E traverseSession dicNode =
     (let pointIndex = to_int16 (getInputIndex (DICNODE E) dicNode 0);
          childDicNodes = getProximityChildDicNodes (DICNODE E) dicNode traverseSession
                            (pointIndex + 1) True
      in insertionChildren E dicNode childDicNodes traverseSession)"

text \<open>
  \<^verbatim>\<open>processDicNodeAsTransposition\<close>: the outer loop over the children for the next
  touch point (\<open>transpositionChildren1\<close>) and, for each of them that has children, the
  inner loop over its children for the current touch point (\<open>transpositionChildren2\<close>).
\<close>

fun transpositionChildren2 ::
  "('f::ord, 'n, 's, 'a, 'p) Suggest \<Rightarrow> 'n \<Rightarrow> 'n list \<Rightarrow> 's \<Rightarrow> 's" where
  "transpositionChildren2 E childDicNode1 [] traverseSession = traverseSession"
| "transpositionChildren2 E childDicNode1 (childDicNode2 # rest) traverseSession =
     (case addCostAndForwardInputIndex (WEIGHTING E) CT_TRANSPOSITION traverseSession
             (Some childDicNode1) childDicNode2 False of
        (childDicNode2', s1) \<Rightarrow>
          transpositionChildren2 E childDicNode1 rest (processExpandedDicNode E s1 childDicNode2'))"

fun transpositionChildren1 ::
  "('f::ord, 'n, 's, 'a, 'p) Suggest \<Rightarrow> int \<Rightarrow> 'n list \<Rightarrow> 's \<Rightarrow> 's" where
  "transpositionChildren1 E pointIndex [] traverseSession = traverseSession"
| "transpositionChildren1 E pointIndex (childDicNode1 # rest) traverseSession =
     transpositionChildren1 E pointIndex rest
       (if hasChildren (DICNODE E) childDicNode1
        then transpositionChildren2 E childDicNode1
               (getProximityChildDicNodes (DICNODE E) childDicNode1 traverseSession pointIndex False)
               traverseSession
        else traverseSession)"

definition processDicNodeAsTransposition ::
  "('f::ord, 'n, 's, 'a, 'p) Suggest \<Rightarrow> 's \<Rightarrow> 'n \<Rightarrow> 's" where
  "processDicNodeAsTransposition E traverseSession dicNode =
     (let pointIndex = to_int16 (getInputIndex (DICNODE E) dicNode 0);
          childDicNodes1 = getProximityChildDicNodes (DICNODE E) dicNode traverseSession
                             (pointIndex + 1) False
      in transpositionChildren1 E pointIndex childDicNodes1 traverseSession)"

subsection \<open>expandCurrentDicNodes\<close>

text \<open>
  The \<^verbatim>\<open>for\<close> loop over the children of the popped node, for a node that is not at a
  look-ahead correction index. \<open>isCompletion\<close> and \<open>allowsErrorCorrections\<close> are the
  locals of the same name, computed before the loop.
\<close>

fun expandChildren ::
  "('f::ord, 'n, 's, 'a, 'p) Suggest \<Rightarrow> bool \<Rightarrow> bool \<Rightarrow> 'n \<Rightarrow> 'n list \<Rightarrow> 's \<Rightarrow> 's" where
  "expandChildren E isCompl allowsErrCorr dicNode [] traverseSession = traverseSession"
| "expandChildren E isCompl allowsErrCorr dicNode (childDicNode # rest) traverseSession =
     expandChildren E isCompl allowsErrCorr dicNode rest
       (if isCompl then processDicNodeAsMatch E traverseSession childDicNode
        else
          let s1 = (if allowsErrCorr
                       \<and> isOmission (TRAVERSAL E) traverseSession dicNode childDicNode
                    then processDicNodeAsOmission E traverseSession
                           (initByCopy (DICNODE E) childDicNode)
                    else traverseSession)
          in (case getProximityType (TRAVERSAL E) s1 dicNode childDicNode of
                MATCH_CHAR \<Rightarrow> processDicNodeAsMatch E s1 childDicNode
              | PROXIMITY_CHAR \<Rightarrow> processDicNodeAsMatch E s1 childDicNode
              | ADDITIONAL_PROXIMITY_CHAR \<Rightarrow>
                  (if allowsErrCorr
                   then processDicNodeAsAdditionalProximityChar E s1 dicNode childDicNode
                   else s1)
              | SUBSTITUTION_CHAR \<Rightarrow>
                  (if allowsErrCorr
                   then processDicNodeAsSubstitution E s1 dicNode childDicNode
                   else s1)
              | UNRELATED_CHAR \<Rightarrow> s1
              | OTHER_PROXIMITY_TYPE other \<Rightarrow> s1))"

text \<open>
  The body of the \<^verbatim>\<open>while\<close> loop after the check of the input size limit: what is
  done with one popped node. \<open>inputSize\<close> and \<open>shouldDepthLevelCache\<close> are the locals
  computed before the loop. The look-ahead flags and \<open>isCompletion\<close> are computed from
  the node as popped; \<^verbatim>\<open>setCached\<close> then marks the local node, and what follows works
  on the marked node.
\<close>

definition expandDicNode ::
  "('f::ord, 'n, 's, 'a, 'p) Suggest \<Rightarrow> int \<Rightarrow> bool \<Rightarrow> 's \<Rightarrow> 'n \<Rightarrow> 's" where
  "expandDicNode E inputSize shouldDepthLevelCache_l traverseSession dicNode =
     (let point0Index = getInputIndex (DICNODE E) dicNode 0;
          canDoLookAhead = canDoLookAheadCorrection (TRAVERSAL E) traverseSession dicNode;
          isLookAheadCorrection =
            (canDoLookAhead
             \<and> isLookAheadCorrectionInputIndex (SESSION E) traverseSession point0Index);
          isCompl = isCompletion (DICNODE E) dicNode inputSize;
          shouldNodeLevelCache_l = shouldNodeLevelCache (TRAVERSAL E) traverseSession dicNode
      in
      (case (if shouldDepthLevelCache_l \<or> shouldNodeLevelCache_l
             then (setCached (DICNODE E) dicNode,
                   copyPushContinue (SESSION E) dicNode traverseSession)
             else (dicNode, traverseSession)) of
         (dicNode1, s1) \<Rightarrow>
           if isLookAheadCorrection
           then
             (let s2 = (if CORRECT_TRANSPOSITION
                        then processDicNodeAsTransposition E s1 dicNode1 else s1)
              in if CORRECT_INSERTION then processDicNodeAsInsertion E s2 dicNode1 else s2)
           else
             (let allowsErrCorr = allowsErrorCorrections (TRAVERSAL E) dicNode1;
                  s2 = (if allowsErrCorr
                           \<and> isSpaceSubstitutionTerminal (TRAVERSAL E) s1 dicNode1
                        then createNextWordDicNode E s1 dicNode1 True else s1);
                  childDicNodes = getAllChildDicNodes (DICNODE E) dicNode1 s2;
                  s3 = expandChildren E isCompl allowsErrCorr dicNode1 childDicNodes s2
              in if allowsErrCorr \<and> canDoLookAhead
                 then copyPushNextActive (SESSION E) dicNode1 s3 else s3)))"

text \<open>
  The \<^verbatim>\<open>while (activeSize() > 0)\<close> loop. The queue is whatever the cache implements,
  so the loop need not end: \<open>None\<close> is "does not return". When the popped node exceeds the
  input size limit the function executes \<^verbatim>\<open>return\<close>: the loop is left with the rest
  of the active queue as it is.
\<close>

partial_function (option) expandLoop ::
  "('f::ord, 'n, 's, 'a, 'p) Suggest \<Rightarrow> int \<Rightarrow> bool \<Rightarrow> 's \<Rightarrow> 's option" where
  "expandLoop E inputSize shouldDepthLevelCache_l traverseSession =
     (if activeSize (SESSION E) traverseSession > 0
      then (case popActive (SESSION E) traverseSession of
              (dicNode, s1) \<Rightarrow>
                if isTotalInputSizeExceedingLimit (DICNODE E) dicNode then Some s1
                else expandLoop E inputSize shouldDepthLevelCache_l
                       (expandDicNode E inputSize shouldDepthLevelCache_l s1 dicNode))
      else Some traverseSession)"

declare expandLoop.simps [code]

definition expandCurrentDicNodes ::
  "('f::ord, 'n, 's, 'a, 'p) Suggest \<Rightarrow> 's \<Rightarrow> 's option" where
  "expandCurrentDicNodes E traverseSession =
     (let inputSize = getInputSize (SESSION E) traverseSession;
          shouldDepthLevelCache_l = shouldDepthLevelCache (TRAVERSAL E) traverseSession;
          s1 = (if shouldDepthLevelCache_l
                then updateLastCachedInputIndex (SESSION E) traverseSession
                else traverseSession)
      in expandLoop E inputSize shouldDepthLevelCache_l s1)"

subsection \<open>outputSuggestions\<close>

text \<open>
  The first loop pops \<open>terminalSize\<close> terminals, the first popped into the last slot of
  the array: the list is the array \<^verbatim>\<open>terminals[0 .. terminalSize - 1]\<close>.
\<close>

fun popTerminals ::
  "('f, 'n, 's, 'a, 'p) Suggest \<Rightarrow> nat \<Rightarrow> 's \<Rightarrow> 'n list \<times> 's" where
  "popTerminals E 0 traverseSession = ([], traverseSession)"
| "popTerminals E (Suc k) traverseSession =
     (case popTerminal (SESSION E) traverseSession of
        (terminal, s1) \<Rightarrow>
          (case popTerminals E k s1 of (terminals, s2) \<Rightarrow> (terminals @ [terminal], s2)))"

text \<open>The locals of the output loop that are written in the loop.\<close>

record OutputState =
  outputWordIndex :: int
  maxScore :: int
  outputs :: Outputs

text \<open>
  Three locals of the body of the output loop, as functions of the terminal:
  \<open>isValidWord\<close>, \<open>isForceCommitMultiWords\<close> and \<open>finalScore\<close>.
\<close>

definition isValidWord :: "('f, 'n, 's, 'a, 'p) Suggest \<Rightarrow> 's \<Rightarrow> 'n \<Rightarrow> bool" where
  "isValidWord E traverseSession terminalDicNode =
     (getProbability (DICNODE E) terminalDicNode > 0
      \<and> \<not> isBlacklistedOrNotAWord (DICNODE E)
            (TerminalAttributes (DICNODE E) traverseSession terminalDicNode))"

definition isForceCommitMultiWords :: "('f, 'n, 's, 'a, 'p) Suggest \<Rightarrow> 's \<Rightarrow> 'n \<Rightarrow> bool" where
  "isForceCommitMultiWords E traverseSession terminalDicNode =
     (allowPartialCommit (TRAVERSAL E)
      \<and> (isPartiallyCommited (SESSION E) traverseSession
          \<or> (getInputSize (SESSION E) traverseSession \<ge> MIN_LEN_FOR_MULTI_WORD_AUTOCORRECT
              \<and> hasMultipleWords (DICNODE E) terminalDicNode)))"

definition finalScore ::
  "('f::plus, 'n, 's, 'a, 'p) Suggest \<Rightarrow> 's \<Rightarrow> 'f \<Rightarrow> int \<Rightarrow> DoubleLetterLevel \<Rightarrow> int \<Rightarrow> 'n
     \<Rightarrow> int" where
  "finalScore E traverseSession languageWeight doubleLetterTerminalIndex doubleLetterLevel
       terminalIndex terminalDicNode =
     (let doubleLetterCost = getDoubleLetterDemotionDistanceCost (SCORING E) terminalIndex
                               doubleLetterTerminalIndex doubleLetterLevel;
          compoundDistance = getCompoundDistanceW_node (DICNODE E) terminalDicNode languageWeight
                               + doubleLetterCost
      in calculateFinalScore (SCORING E) compoundDistance
           (getInputSize (SESSION E) traverseSession)
           (isForceCommitMultiWords E traverseSession terminalDicNode
            \<or> (isValidWord E traverseSession terminalDicNode
                \<and> doesAutoCorrectValidWord (SCORING E))))"

text \<open>The body of the output loop, for the terminal at \<open>terminalIndex\<close>.\<close>

definition outputTerminal ::
  "('f::plus, 'n, 's, 'a, 'p) Suggest \<Rightarrow> 's \<Rightarrow> 'f \<Rightarrow> int \<Rightarrow> DoubleLetterLevel \<Rightarrow> int \<Rightarrow> 'n
     \<Rightarrow> OutputState \<Rightarrow> OutputState" where
  "outputTerminal E traverseSession languageWeight doubleLetterTerminalIndex doubleLetterLevel
       terminalIndex terminalDicNode st =
     (let terminalAttributes = TerminalAttributes (DICNODE E) traverseSession terminalDicNode;
          valid = isValidWord E traverseSession terminalDicNode;
          score = finalScore E traverseSession languageWeight doubleLetterTerminalIndex
                    doubleLetterLevel terminalIndex terminalDicNode;
          st1 = st\<lparr> maxScore := max (maxScore st) score \<rparr>;
          st2 = (if allowPartialCommit (TRAVERSAL E) \<and> valid \<and> outputWordIndex st1 = 0
                 then st1\<lparr> outputs := (outputs st1)\<lparr> spaceIndices :=
                        outputSpacePositionsResult (DICNODE E) terminalDicNode
                          (spaceIndices (outputs st1)) \<rparr> \<rparr>
                 else st1);
          st3 = (if valid
                 then
                   (let i = outputWordIndex st2;
                        o1 = (outputs st2)\<lparr> outputTypes :=
                               (outputTypes (outputs st2)) (i := KIND_CORRECTION E) \<rparr>;
                        o2 = o1\<lparr> frequencies := (frequencies o1) (i := score) \<rparr>;
                        startIndex = i * MAX_WORD_LENGTH E;
                        o3 = o2\<lparr> outputCodePoints :=
                               outputResult (DICNODE E) terminalDicNode startIndex
                                 (outputCodePoints o2) \<rparr>
                    in st2\<lparr> outputs := o3, outputWordIndex := i + 1 \<rparr>)
                 else st2);
          sameAsTyped_l = sameAsTyped (TRAVERSAL E) traverseSession terminalDicNode
      in (case outputShortcuts (DICNODE E) terminalAttributes (outputWordIndex st3) score
                (outputs st3) sameAsTyped_l of
            (outputWordIndex', outputs') \<Rightarrow>
              st3\<lparr> outputWordIndex := outputWordIndex', outputs := outputs' \<rparr>))"

text \<open>
  The output loop: it runs while terminals are left and
  \<^verbatim>\<open>outputWordIndex < MAX_RESULTS\<close>.
\<close>

fun outputTerminals ::
  "('f::plus, 'n, 's, 'a, 'p) Suggest \<Rightarrow> 's \<Rightarrow> 'f \<Rightarrow> int \<Rightarrow> DoubleLetterLevel \<Rightarrow> int \<Rightarrow> 'n list
     \<Rightarrow> OutputState \<Rightarrow> OutputState" where
  "outputTerminals E traverseSession languageWeight dlIndex dlLevel terminalIndex [] st = st"
| "outputTerminals E traverseSession languageWeight dlIndex dlLevel terminalIndex
       (terminalDicNode # rest) st =
     (if outputWordIndex st < MAX_RESULTS E
      then outputTerminals E traverseSession languageWeight dlIndex dlLevel (terminalIndex + 1) rest
             (outputTerminal E traverseSession languageWeight dlIndex dlLevel terminalIndex
                terminalDicNode st)
      else st)"

text \<open>
  \<^verbatim>\<open>outputSuggestions\<close> returns the number of output words; the model returns it with
  the output buffers and the session (whose terminal queue has been popped).
\<close>

definition outputSuggestions ::
  "('f::plus, 'n, 's, 'a, 'p) Suggest \<Rightarrow> 's \<Rightarrow> Outputs \<Rightarrow> int \<times> Outputs \<times> 's" where
  "outputSuggestions E traverseSession outs =
     (let terminalSize_l = min (MAX_RESULTS E) (terminalSize (SESSION E) traverseSession) in
      (case popTerminals E (nat terminalSize_l) traverseSession of
         (terminals, s1) \<Rightarrow>
           (let languageWeight = getAdjustedLanguageWeight (SCORING E) s1 terminals terminalSize_l in
            (case getMostProbableString (SCORING E) s1 terminalSize_l languageWeight outs of
               (hasMostProbableString, outs1) \<Rightarrow>
                 (case searchWordWithDoubleLetter (SCORING E) terminals terminalSize_l (- 1)
                         NOT_A_DOUBLE_LETTER of
                    (doubleLetterTerminalIndex, doubleLetterLevel) \<Rightarrow>
                      (let st0 = \<lparr> outputWordIndex = (if hasMostProbableString then 1 else 0),
                                   maxScore = S_INT_MIN E,
                                   outputs = outs1 \<rparr>;
                           st = outputTerminals E s1 languageWeight doubleLetterTerminalIndex
                                  doubleLetterLevel 0 terminals st0;
                           outs2 = (if hasMostProbableString
                                    then safetyNetForMostProbableString (SCORING E) terminalSize_l
                                           (maxScore st) (outputs st)
                                    else outputs st)
                       in (outputWordIndex st, outs2, s1)))))))"

subsection \<open>getSuggestions\<close>

text \<open>
  The loop of \<^verbatim>\<open>getSuggestions\<close>: expand the active nodes, advance the active queue,
  advance the input index, until the active queue is empty. \<open>None\<close> is "does not return".
\<close>

partial_function (option) searchLoop ::
  "('f::ord, 'n, 's, 'a, 'p) Suggest \<Rightarrow> int \<Rightarrow> 's \<Rightarrow> 's option" where
  "searchLoop E inputSize traverseSession =
     (if activeSize (SESSION E) traverseSession > 0
      then (case expandCurrentDicNodes E traverseSession of
              None \<Rightarrow> None
            | Some s1 \<Rightarrow>
                searchLoop E inputSize
                  (advanceInputIndex (SESSION E) inputSize
                     (advanceActiveDicNodes (SESSION E) s1)))
      else Some traverseSession)"

declare searchLoop.simps [code]


section \<open>A small instance of the collaborators\<close>

text \<open>
  To run the driver on concrete inputs the parameters are instantiated with a small
  lexicon and list-based queues. This instance stands in for the classes that are not among
  the sources; it is used to evaluate the driver, and nothing general is proved from it. The lexicon has the word \<open>a\<close> and, below it, the entry
  \<open>ab\<close>, which is flagged "not a word" and carries one shortcut (\<open>abc\<close>). A node
  records the code points of its path, the input index, its compound distance, the total
  length of its path, the probability of its entry and whether it spans several words. A
  session holds the four queues as lists (the active queue in the order
  \<^verbatim>\<open>popActive\<close> returns its nodes), the typed code points, and the flags the driver
  reads. Floats are binary32 numbers. The policy is the plain one: characters match or
  are unrelated, no error correction, no look-ahead, no caching.
\<close>

record ExNode =
  exWord :: string
  exInputIndex :: int
  exDistance :: float32
  exTotalLength :: int
  exProbability :: int
  exMultipleWords :: bool

record ExSession =
  exActive :: "ExNode list"
  exNextActive :: "ExNode list"
  exTerminals :: "ExNode list"
  exContinue :: "ExNode list"
  exTyped :: string
  exInputSize :: int
  exUsed :: bool
  exPartiallyCommited :: bool
  exPrevWordPos :: int

definition exChildWords :: "string \<Rightarrow> (string \<times> int) list" where
  "exChildWords w =
     (if w = [] then [(''a'', 10)] else if w = ''a'' then [(''ab'', 7)] else [])"

definition exRoot :: ExNode where
  "exRoot = \<lparr> exWord = [], exInputIndex = 0, exDistance = 0, exTotalLength = 0,
              exProbability = 0, exMultipleWords = False \<rparr>"

definition exTraversal :: "bool \<Rightarrow> (float32, ExNode, ExSession) Traversal" where
  "exTraversal partialCommit =
     \<lparr> getMaxSpatialDistance = Float32 False 127 0,
       getMaxPointerCount = 1,
       getMaxCacheSize = 40,
       allowPartialCommit = partialCommit,
       needsToTraverseAllUserInput = True,
       shouldDepthLevelCache = (\<lambda>s. False),
       shouldNodeLevelCache = (\<lambda>s n. False),
       canDoLookAheadCorrection = (\<lambda>s n. False),
       allowsErrorCorrections = (\<lambda>n. False),
       isSpaceSubstitutionTerminal = (\<lambda>s n. False),
       isSpaceOmissionTerminal = (\<lambda>s n. False),
       isOmission = (\<lambda>s n c. False),
       isPossibleOmissionChildNode = (\<lambda>s n c. False),
       getProximityType = (\<lambda>s n c.
          if 0 \<le> exInputIndex c \<and> exInputIndex c < int (length (exTyped s))
             \<and> exWord c \<noteq> [] \<and> last (exWord c) = exTyped s ! nat (exInputIndex c)
          then MATCH_CHAR else UNRELATED_CHAR),
       isGoodToTraverseNextWord = (\<lambda>n. False),
       sameAsTyped = (\<lambda>s n. exWord n = exTyped s) \<rparr>"

definition exScoring :: "bool \<Rightarrow> (float32, ExNode, ExSession) Scoring" where
  "exScoring autoCorrectValid =
     \<lparr> getAdjustedLanguageWeight = (\<lambda>s ts n. Float32 False 127 0),
       getMostProbableString = (\<lambda>s n w outs. (False, outs)),
       searchWordWithDoubleLetter = (\<lambda>ts n i l. (i, l)),
       getDoubleLetterDemotionDistanceCost = (\<lambda>i j l. 0),
       calculateFinalScore = (\<lambda>d n force. if force then 2 else 1),
       doesAutoCorrectValidWord = autoCorrectValid,
       safetyNetForMostProbableString = (\<lambda>n m outs. outs) \<rparr>"

definition exWeighting :: "(ExNode, ExSession) Weighting" where
  "exWeighting =
     \<lparr> addCostAndForwardInputIndex = (\<lambda>ct s parent n useMap.
          case ct of CT_MATCH \<Rightarrow> (n\<lparr> exInputIndex := exInputIndex n + 1 \<rparr>, s)
                   | _ \<Rightarrow> (n, s)) \<rparr>"

definition exDicNode :: "(float32, ExNode, ExSession, ExNode) DicNodeOps" where
  "exDicNode =
     \<lparr> isTotalInputSizeExceedingLimit = (\<lambda>n. exTotalLength n > 48 - 3),
       getInputIndex = (\<lambda>n p. exInputIndex n),
       isCompletion = (\<lambda>n inputSize. exInputIndex n \<ge> inputSize),
       setCached = (\<lambda>n. n),
       getCompoundDistance_node = exDistance,
       getCompoundDistanceW_node = (\<lambda>n w. exDistance n),
       isTerminalWordNode = (\<lambda>n. exProbability n > 0),
       shouldBeFilterdBySafetyNetForBigram = (\<lambda>n. False),
       hasMultipleWords = exMultipleWords,
       hasChildren = (\<lambda>n. exChildWords (exWord n) \<noteq> []),
       isZeroCostOmission = (\<lambda>n. False),
       getPrevWordNodePos = (\<lambda>n. int (length (exWord n))),
       getProbability = exProbability,
       outputSpacePositionsResult = (\<lambda>n a. a),
       outputResult = (\<lambda>n start a i.
          if start \<le> i \<and> i < start + int (length (exWord n))
          then int (of_char (exWord n ! nat (i - start))) else a i),
       initByCopy = (\<lambda>n. n),
       DicNodeUtils_initByCopy = (\<lambda>n. n),
       initAsRoot = (\<lambda>s prevWordPos. exRoot),
       initAsRootWithPreviousWord = (\<lambda>s n. exRoot\<lparr> exInputIndex := exInputIndex n,
          exDistance := exDistance n, exTotalLength := exTotalLength n + 1,
          exMultipleWords := True \<rparr>),
       getAllChildDicNodes = (\<lambda>n s.
          map (\<lambda>(w, p). n\<lparr> exWord := w, exTotalLength := exTotalLength n + 1,
                           exProbability := p \<rparr>) (exChildWords (exWord n))),
       getProximityChildDicNodes = (\<lambda>n s i exact. []),
       TerminalAttributes = (\<lambda>s n. n),
       isBlacklistedOrNotAWord = (\<lambda>a. exWord a = ''ab''),
       outputShortcuts = (\<lambda>a i score outs same.
          if exWord a = ''ab'' \<and> i < 18
          then (i + 1,
                outs\<lparr> outputTypes := (outputTypes outs) (i := 7),
                      frequencies := (frequencies outs) (i := score),
                      outputCodePoints := (outputCodePoints outs)
                        (i * 48 := 97, i * 48 + 1 := 98, i * 48 + 2 := 99) \<rparr>)
          else (i, outs)) \<rparr>"

definition exSession :: "(float32, ExNode, ExSession, string) SessionOps" where
  "exSession =
     \<lparr> setupForGetSuggestions = (\<lambda>typed codePoints inputSize xs ys ts ids d n s.
          s\<lparr> exTyped := typed, exInputSize := inputSize, exUsed := (0 < inputSize) \<rparr>),
       proximityInfoState0_isUsed = exUsed,
       getInputSize = exInputSize,
       isContinuousSuggestionPossible = (\<lambda>s. exContinue s \<noteq> []),
       getPrevWordPos = exPrevWordPos,
       setPrevWordPos = (\<lambda>p s. s\<lparr> exPrevWordPos := p \<rparr>),
       isPartiallyCommited = exPartiallyCommited,
       setPartiallyCommited = (\<lambda>s. s\<lparr> exPartiallyCommited := True \<rparr>),
       resetCache = (\<lambda>n m s. s\<lparr> exActive := [], exNextActive := [], exTerminals := [],
                                  exContinue := [], exPartiallyCommited := False \<rparr>),
       activeSize = (\<lambda>s. int (length (exActive s))),
       terminalSize = (\<lambda>s. int (length (exTerminals s))),
       popActive = (\<lambda>s. (hd (exActive s), s\<lparr> exActive := tl (exActive s) \<rparr>)),
       popTerminal = (\<lambda>s. (last (exTerminals s), s\<lparr> exTerminals := butlast (exTerminals s) \<rparr>)),
       copyPushActive = (\<lambda>n s. s\<lparr> exActive := exActive s @ [n] \<rparr>),
       copyPushNextActive = (\<lambda>n s. s\<lparr> exNextActive := exNextActive s @ [n] \<rparr>),
       copyPushTerminal = (\<lambda>n s. s\<lparr> exTerminals := exTerminals s @ [n] \<rparr>),
       copyPushContinue = (\<lambda>n s. s\<lparr> exContinue := exContinue s @ [n] \<rparr>),
       continueSearch = (\<lambda>s. s\<lparr> exActive := exContinue s, exNextActive := [],
                                 exTerminals := [] \<rparr>),
       setCommitPoint = (\<lambda>k s. (hd (exContinue s), s)),
       advanceActiveDicNodes = (\<lambda>s. s\<lparr> exActive := exNextActive s, exNextActive := [] \<rparr>),
       advanceInputIndex = (\<lambda>n s. s),
       updateLastCachedInputIndex = (\<lambda>s. s),
       isLookAheadCorrectionInputIndex = (\<lambda>s i. False) \<rparr>"

definition exSuggest :: "bool \<Rightarrow> bool \<Rightarrow> (float32, ExNode, ExSession, ExNode, string) Suggest" where
  "exSuggest partialCommit autoCorrectValid =
     \<lparr> TRAVERSAL = exTraversal partialCommit,
       SCORING = exScoring autoCorrectValid,
       WEIGHTING = exWeighting,
       DICNODE = exDicNode,
       SESSION = exSession,
       MAX_RESULTS = 18,
       MAX_WORD_LENGTH = 48,
       MAX_VALUE_FOR_WEIGHTING = 10000000,
       S_INT_MIN = - 2147483648,
       KIND_CORRECTION = 1,
       toFloat = f32_of_int \<rparr>"

definition exFresh :: ExSession where
  "exFresh = \<lparr> exActive = [], exNextActive = [], exTerminals = [], exContinue = [],
               exTyped = [], exInputSize = 0, exUsed = False, exPartiallyCommited = False,
               exPrevWordPos = 0 \<rparr>"

definition exNoOutputs :: Outputs where
  "exNoOutputs = \<lparr> outputCodePoints = (\<lambda>i. 0), frequencies = (\<lambda>i. 0),
                   spaceIndices = (\<lambda>i. 0), outputTypes = (\<lambda>i. 0) \<rparr>"

text \<open>Some nodes and sessions of the instance.\<close>

definition exTooLong :: ExNode where
  "exTooLong = \<lparr> exWord = ''a'', exInputIndex = 1, exDistance = 0, exTotalLength = 46,
                  exProbability = 10, exMultipleWords = True \<rparr>"

definition exA :: ExNode where
  "exA = \<lparr> exWord = ''a'', exInputIndex = 1, exDistance = 0, exTotalLength = 1,
              exProbability = 10, exMultipleWords = False \<rparr>"

definition exAB :: ExNode where
  "exAB = \<lparr> exWord = ''ab'', exInputIndex = 1, exDistance = 0, exTotalLength = 2,
              exProbability = 7, exMultipleWords = False \<rparr>"

definition exTyping :: ExSession where
  "exTyping = exFresh\<lparr> exTyped := ''a'', exInputSize := 1, exUsed := True \<rparr>"

definition exTypingAB :: ExSession where
  "exTypingAB = exFresh\<lparr> exTyped := ''ab'', exInputSize := 2, exUsed := True \<rparr>"

definition exContinuing :: ExSession where
  "exContinuing = exFresh\<lparr> exContinue := [exA], exTyped := ''abc'', exInputSize := 3,
                           exUsed := True \<rparr>"

text \<open>
  Two variations of the instance. \<open>exCorrecting\<close> has a traversal policy that allows error
  corrections and look-ahead, takes every word node for a space substitution terminal and
  allows a next word after every node; \<open>exAtMax\<close> is the node of \<open>ab\<close>, both points
  consumed, whose compound distance is \<^verbatim>\<open>MAX_VALUE_FOR_WEIGHTING\<close>. \<open>exFull\<close> has
  \<^verbatim>\<open>MAX_RESULTS\<close> 2 and a scoring policy that always reports a most probable string
  (which it leaves to the caller's buffers), so that the output loop starts at index 1.
\<close>

definition exCorrecting :: "(float32, ExNode, ExSession, ExNode, string) Suggest" where
  "exCorrecting = (exSuggest False True)
     \<lparr> TRAVERSAL := (exTraversal False)
         \<lparr> canDoLookAheadCorrection := (\<lambda>s n. True),
           allowsErrorCorrections := (\<lambda>n. True),
           isSpaceSubstitutionTerminal := (\<lambda>s n. exProbability n > 0),
           isGoodToTraverseNextWord := (\<lambda>n. True) \<rparr> \<rparr>"

definition exAtMax :: ExNode where
  "exAtMax = exAB\<lparr> exInputIndex := 2, exDistance := f32_of_int 10000000 \<rparr>"

definition exFull :: "(float32, ExNode, ExSession, ExNode, string) Suggest" where
  "exFull = (exSuggest False True)
     \<lparr> SCORING := (exScoring True)\<lparr> getMostProbableString := (\<lambda>s n w outs. (True, outs)) \<rparr>,
       MAX_RESULTS := 2 \<rparr>"

section \<open>Properties of the scoring state\<close>

subsection \<open>Cost addition\<close>

lemma addDistance_fields:
  "mSpatialDistance (addDistance tf sc lc dn n tii s) = mSpatialDistance s + sc"
  "mLanguageDistance (addDistance tf sc lc dn n tii s) = mLanguageDistance s + lc"
  "mEditCorrectionCount (addDistance tf sc lc dn n tii s) = mEditCorrectionCount s"
  "mProximityCorrectionCount (addDistance tf sc lc dn n tii s) = mProximityCorrectionCount s"
  "mTotalPrevWordsLanguageCost (addDistance tf sc lc dn n tii s) = mTotalPrevWordsLanguageCost s"
  "mDoubleLetterLevel (addDistance tf sc lc dn n tii s) = mDoubleLetterLevel s"
  "mRawLength (addDistance tf sc lc dn n tii s) = mRawLength s"
  by (simp_all add: addDistance_def Let_def)

lemma addDistance_normalized:
  "mNormalizedCompoundDistance (addDistance tf sc lc dn n tii s) =
     (if dn then ((mSpatialDistance s + sc) + (mLanguageDistance s + lc)) / tf (max 1 tii)
      else (mSpatialDistance s + sc) + (mLanguageDistance s + lc))"
  by (simp add: addDistance_def Let_def)

lemma addCost_distances:
  "mSpatialDistance (addCost tf sc lc dn n tii e p s) = mSpatialDistance s + sc"
  "mLanguageDistance (addCost tf sc lc dn n tii e p s) = mLanguageDistance s + lc"
  "mNormalizedCompoundDistance (addCost tf sc lc dn n tii e p s) =
     mNormalizedCompoundDistance (addDistance tf sc lc dn n tii s)"
  by (simp_all add: addCost_def Let_def setTotalPrevWordsLanguageCost_def addDistance_fields)

text \<open>
  C3. After a cost addition (\<^verbatim>\<open>addDistance\<close>, and \<^verbatim>\<open>addCost\<close> which calls it),
  the normalized compound distance is the sum of the accumulated spatial and language
  distances of the resulting state, divided by \<^verbatim>\<open>max(1, totalInputIndex)\<close>
  converted to float when normalization is requested, and the sum itself when it is not.
\<close>

theorem normalizedCompoundDistance_after_addition:
  fixes s :: "('f::{plus,inverse,zero,ord}) DicNodeStateScoring"
  shows
  "mNormalizedCompoundDistance (addDistance tf sc lc dn n tii s) =
     (if dn
      then (mSpatialDistance (addDistance tf sc lc dn n tii s)
            + mLanguageDistance (addDistance tf sc lc dn n tii s)) / tf (max 1 tii)
      else mSpatialDistance (addDistance tf sc lc dn n tii s)
            + mLanguageDistance (addDistance tf sc lc dn n tii s))
   \<and> mNormalizedCompoundDistance (addCost tf sc lc dn n tii e p s) =
     (if dn
      then (mSpatialDistance (addCost tf sc lc dn n tii e p s)
            + mLanguageDistance (addCost tf sc lc dn n tii e p s)) / tf (max 1 tii)
      else mSpatialDistance (addCost tf sc lc dn n tii e p s)
            + mLanguageDistance (addCost tf sc lc dn n tii e p s))"
  by (simp add: addCost_distances addDistance_normalized addDistance_fields)

subsection \<open>The correction counters and the language cost of the previous words\<close>

lemma word16_succ_neq: "(x :: 16 word) + 1 \<noteq> x"
  by simp

lemma sint16_succ:
  "sint ((x :: 16 word) + 1) = (if sint x = 32767 then - 32768 else sint x + 1)"
proof -
  have r: "- 32768 \<le> sint x" "sint x \<le> 32767"
    using sint_range_size [of x] by (simp_all add: word_size)
  have "sint (x + 1) = signed_take_bit 15 (sint x + 1)"
    by (simp add: sint_word_ariths)
  also have "\<dots> = (if sint x = 32767 then - 32768 else sint x + 1)"
  proof (cases "sint x = 32767")
    case True
    then show ?thesis by simp
  next
    case False
    with r have "- (2 ^ 15) \<le> sint x + 1" "sint x + 1 < 2 ^ 15" by simp_all
    then have "signed_take_bit 15 (sint x + 1) = sint x + 1"
      by (simp add: signed_take_bit_int_eq_self)
    with False show ?thesis by simp
  qed
  finally show ?thesis .
qed

lemma addCost_counters:
  "mEditCorrectionCount (addCost tf sc lc dn n tii e p s) =
     (if e then mEditCorrectionCount s + 1 else mEditCorrectionCount s)"
  "mProximityCorrectionCount (addCost tf sc lc dn n tii e p s) =
     (if p then mProximityCorrectionCount s + 1 else mProximityCorrectionCount s)"
  "mTotalPrevWordsLanguageCost (addCost tf sc lc dn n tii e p s) =
     (if 0 < lc then mTotalPrevWordsLanguageCost s + lc else mTotalPrevWordsLanguageCost s)"
  by (simp_all add: addCost_def Let_def setTotalPrevWordsLanguageCost_def addDistance_fields)

text \<open>
  C10. For every call of \<^verbatim>\<open>addCost\<close>: the edit-correction counter is the old one
  plus 1 exactly when \<open>isEditCorrection\<close> is set and is unchanged otherwise; the same
  holds of the proximity-correction counter and \<open>isProximityCorrection\<close>; the language
  cost of the previous words is the old one plus the language cost when the language cost
  compares greater than zero, and is unchanged otherwise. The counters are
  \<^verbatim>\<open>int16_t\<close>, so "plus 1" is the machine's increment: read as a signed number the
  counter goes up by one, except from 32767, where it wraps to -32768.
\<close>

theorem addCost_counts_and_prev_words_cost:
  fixes s :: "('f::{plus,inverse,zero,ord}) DicNodeStateScoring"
  shows
  "(mEditCorrectionCount (addCost tf sc lc dn n tii e p s) = mEditCorrectionCount s + 1) = e
   \<and> (mEditCorrectionCount (addCost tf sc lc dn n tii e p s) = mEditCorrectionCount s) = (\<not> e)
   \<and> (mProximityCorrectionCount (addCost tf sc lc dn n tii e p s)
        = mProximityCorrectionCount s + 1) = p
   \<and> (mProximityCorrectionCount (addCost tf sc lc dn n tii e p s)
        = mProximityCorrectionCount s) = (\<not> p)
   \<and> sint (mEditCorrectionCount (addCost tf sc lc dn n tii e p s)) =
       (if e then (if sint (mEditCorrectionCount s) = 32767 then - 32768
                   else sint (mEditCorrectionCount s) + 1)
        else sint (mEditCorrectionCount s))
   \<and> sint (mProximityCorrectionCount (addCost tf sc lc dn n tii e p s)) =
       (if p then (if sint (mProximityCorrectionCount s) = 32767 then - 32768
                   else sint (mProximityCorrectionCount s) + 1)
        else sint (mProximityCorrectionCount s))
   \<and> mTotalPrevWordsLanguageCost (addCost tf sc lc dn n tii e p s) =
       (if 0 < lc then mTotalPrevWordsLanguageCost s + lc else mTotalPrevWordsLanguageCost s)"
  using word16_succ_neq [of "mEditCorrectionCount s"]
        word16_succ_neq [of "mProximityCorrectionCount s"]
  by (simp add: addCost_counters sint16_succ)

subsection \<open>The double-letter level\<close>

lemma setDoubleLetterLevel_rank:
  "levelRank (mDoubleLetterLevel s) \<le> levelRank (mDoubleLetterLevel (setDoubleLetterLevel l s))"
  by (cases l; cases "mDoubleLetterLevel s") simp_all

lemma setDoubleLetterLevels_rank:
  "levelRank (mDoubleLetterLevel s) \<le> levelRank (mDoubleLetterLevel (setDoubleLetterLevels ls s))"
proof (induction ls arbitrary: s)
  case Nil
  show ?case by simp
next
  case (Cons l ls)
  have "levelRank (mDoubleLetterLevel s) \<le> levelRank (mDoubleLetterLevel (setDoubleLetterLevel l s))"
    by (rule setDoubleLetterLevel_rank)
  also have "\<dots> \<le> levelRank (mDoubleLetterLevel (setDoubleLetterLevels ls (setDoubleLetterLevel l s)))"
    by (rule Cons.IH)
  finally show ?case by simp
qed

lemma setDoubleLetterLevels_append:
  "setDoubleLetterLevels (ls @ ls') s = setDoubleLetterLevels ls' (setDoubleLetterLevels ls s)"
  by (induction ls arbitrary: s) simp_all

lemma levelRank_top: "levelRank l \<le> 2" "(levelRank l = 2) = (l = A_STRONG_DOUBLE_LETTER)"
  by (cases l; simp)+

lemma strong_stays_strong:
  "mDoubleLetterLevel s = A_STRONG_DOUBLE_LETTER \<Longrightarrow>
   mDoubleLetterLevel (setDoubleLetterLevels ls s) = A_STRONG_DOUBLE_LETTER"
  using setDoubleLetterLevels_rank [of s ls]
        levelRank_top [of "mDoubleLetterLevel (setDoubleLetterLevels ls s)"]
  by simp

text \<open>
  C6. Across every sequence of \<^verbatim>\<open>setDoubleLetterLevel\<close> calls the level never
  decreases: the level after the calls \<open>ls\<close> followed by the calls \<open>ls'\<close> is at least
  the level after \<open>ls\<close>. Setting NOT\_A\_DOUBLE\_LETTER leaves the state as it is; setting
  A\_DOUBLE\_LETTER gives A\_DOUBLE\_LETTER unless the level is A\_STRONG\_DOUBLE\_LETTER, which
  is kept; setting A\_STRONG\_DOUBLE\_LETTER always gives A\_STRONG\_DOUBLE\_LETTER, and no later
  sequence of calls changes it.
\<close>

theorem doubleLetterLevel_never_decreases:
  "levelRank (mDoubleLetterLevel (setDoubleLetterLevels ls s))
     \<le> levelRank (mDoubleLetterLevel (setDoubleLetterLevels (ls @ ls') s))
   \<and> setDoubleLetterLevel NOT_A_DOUBLE_LETTER s = s
   \<and> mDoubleLetterLevel (setDoubleLetterLevel A_DOUBLE_LETTER s) =
       (if mDoubleLetterLevel s = A_STRONG_DOUBLE_LETTER then A_STRONG_DOUBLE_LETTER
        else A_DOUBLE_LETTER)
   \<and> mDoubleLetterLevel (setDoubleLetterLevel A_STRONG_DOUBLE_LETTER s) = A_STRONG_DOUBLE_LETTER
   \<and> mDoubleLetterLevel (setDoubleLetterLevels ls' (setDoubleLetterLevel A_STRONG_DOUBLE_LETTER s))
       = A_STRONG_DOUBLE_LETTER"
proof -
  have "levelRank (mDoubleLetterLevel (setDoubleLetterLevels ls s))
          \<le> levelRank (mDoubleLetterLevel (setDoubleLetterLevels (ls @ ls') s))"
    by (simp add: setDoubleLetterLevels_append setDoubleLetterLevels_rank)
  moreover have "mDoubleLetterLevel
      (setDoubleLetterLevels ls' (setDoubleLetterLevel A_STRONG_DOUBLE_LETTER s))
        = A_STRONG_DOUBLE_LETTER"
    by (rule strong_stays_strong) simp
  ultimately show ?thesis by simp
qed

subsection \<open>Accumulated distances in binary32\<close>

lemmas f32_defs = isNaN_def isInf_def mag_def sval_def NaN32_def Inf32_def encode_def
  round_ratio_def Let_def plus_float32_def divide_float32_def less_eq_float32_def
  less_float32_def zero_float32_def isZero_def round_nat_def f32_add_def f32_div_def f32_le_def
  f32_lt_def one_float32_def times_float32_def f32_mul_def

lemma bitlength_bounds: "0 < n \<Longrightarrow> 2 ^ (bitlength n - 1) \<le> n \<and> n < 2 ^ bitlength n"
proof (induction n rule: bitlength.induct)
  case (1 n)
  show ?case
  proof (cases "n div 2 = 0")
    case True
    with 1(2) have "n = 1" by presburger
    then show ?thesis by (simp add: bitlength.simps)
  next
    case False
    then have p: "0 < n div 2" by simp
    from 1(2) have n0: "n \<noteq> 0" by simp
    have IH: "2 ^ (bitlength (n div 2) - 1) \<le> n div 2 \<and> n div 2 < 2 ^ bitlength (n div 2)"
      using 1(1) [OF n0 p] .
    have bl: "bitlength n = Suc (bitlength (n div 2))"
      using n0 by (subst bitlength.simps) simp
    have pos: "0 < bitlength (n div 2)"
      using p by (subst bitlength.simps) simp
    then obtain j where j: "bitlength (n div 2) = Suc j" by (cases "bitlength (n div 2)") auto
    from IH j have "2 ^ j \<le> n div 2" "n div 2 < 2 * 2 ^ j" by simp_all
    then have "2 * 2 ^ j \<le> n" "n < 2 * (2 * 2 ^ j)" by presburger+
    then show ?thesis by (simp add: bl j)
  qed
qed

lemma bitlength_numeral [simp]:
  "bitlength 0 = 0"
  "bitlength (Suc 0) = 1"
  "bitlength (numeral Num.One) = 1"
  "bitlength (numeral (Num.Bit0 m)) = Suc (bitlength (numeral m))"
  "bitlength (numeral (Num.Bit1 m)) = Suc (bitlength (numeral m))"
proof -
  show "bitlength 0 = 0" by (simp add: bitlength.simps)
  show "bitlength (Suc 0) = 1" by (simp add: bitlength.simps [of "Suc 0"] bitlength.simps [of 0])
  then show "bitlength (numeral Num.One) = 1" by simp
  have "numeral (Num.Bit0 m) div 2 = (numeral m :: nat)" by simp
  then show "bitlength (numeral (Num.Bit0 m)) = Suc (bitlength (numeral m))"
    by (subst bitlength.simps) simp
  have "numeral (Num.Bit1 m) div 2 = (numeral m :: nat)" by simp
  then show "bitlength (numeral (Num.Bit1 m)) = Suc (bitlength (numeral m))"
    by (subst bitlength.simps) simp
qed

lemma unat_of_nat_8: "k < 256 \<Longrightarrow> unat (of_nat k :: 8 word) = k"
  by (simp add: unat_of_nat)

lemma unat_of_nat_23: "n < 2 ^ 23 \<Longrightarrow> unat (of_nat n :: 23 word) = n"
  by (simp add: unat_of_nat)

lemma unat_fraction_lt: "unat (f :: 23 word) < 2 ^ 23"
  using unsigned_less [of f, where 'a = nat] by simp

lemma unat_exponent_lt: "unat (e :: 8 word) < 256"
  using unsigned_less [of e, where 'a = nat] by simp

lemma mag_encode_small: "n < 2 ^ 23 \<Longrightarrow> mag (encode s n k) = n"
  by (simp add: encode_def mag_def unat_of_nat_23)

lemma mag_encode_top: "k + 2 < 255 \<Longrightarrow> mag (encode s (2 ^ 24) k) = 2 ^ 24 * 2 ^ k"
proof -
  assume k: "k + 2 < 255"
  then have "unat (of_nat (k + 2) :: 8 word) = k + 2" by (intro unat_of_nat_8) simp
  with k show ?thesis by (simp add: encode_def mag_def del: of_nat_add of_nat_Suc)
qed

lemma mag_encode_normal:
  assumes "2 ^ 23 \<le> n" "n < 2 ^ 24" "k + 1 < 255"
  shows "mag (encode s n k) = n * 2 ^ k"
proof -
  from assms(3) have e: "unat (of_nat (k + 1) :: 8 word) = k + 1"
    by (intro unat_of_nat_8) simp
  from assms have "n - 2 ^ 23 < 2 ^ 23" by simp
  then have f: "unat (of_nat (n - 2 ^ 23) :: 23 word) = n - 2 ^ 23" by (rule unat_of_nat_23)
  have "encode s n k = Float32 s (of_nat (k + 1)) (of_nat (n - 2 ^ 23))"
    using assms by (simp add: encode_def)
  then have "mag (encode s n k) = (2 ^ 23 + (n - 2 ^ 23)) * 2 ^ k"
    using e f by (simp add: mag_def del: of_nat_diff of_nat_add of_nat_Suc)
  with assms(1) show ?thesis by simp
qed

lemma mag_Inf32: "mag (Inf32 s) = 2 ^ 277"
  by (simp add: Inf32_def mag_def)

lemma encode_cases:
  "encode s n k = Inf32 s \<or> (\<exists>f. encode s n k = Float32 s 0 f)
   \<or> (\<exists>e f. encode s n k = Float32 s e f \<and> unat e \<noteq> 255)"
proof -
  have a: "unat (of_nat (k + 2) :: 8 word) \<noteq> 255" if "k + 2 < 255"
    using that unat_of_nat_8 [of "k + 2"] by (simp del: of_nat_add of_nat_Suc)
  have b: "unat (of_nat (k + 1) :: 8 word) \<noteq> 255" if "k + 1 < 255"
    using that unat_of_nat_8 [of "k + 1"] by (simp del: of_nat_add of_nat_Suc)
  show ?thesis
    using a b unfolding encode_def
    by (auto simp del: of_nat_add of_nat_Suc of_nat_diff)
qed

lemma notNaN_encode: "\<not> isNaN (encode s n k)"
  using encode_cases [of s n k] by (auto simp: isNaN_def Inf32_def)

lemma sign_encode: "sign (encode s n k) = s"
  using encode_cases [of s n k] by (auto simp: Inf32_def)

lemma notNaN_round: "\<not> isNaN (round_ratio s p q)"
  by (simp add: round_ratio_def Let_def notNaN_encode)

lemma sign_round: "sign (round_ratio s p q) = s"
  by (simp add: round_ratio_def Let_def sign_encode)

lemma mag_le: "\<not> isNaN a \<Longrightarrow> mag a \<le> 2 ^ 277"
proof -
  assume nn: "\<not> isNaN a"
  show ?thesis
  proof (cases "unat (exponent a) = 255")
    case True
    with nn have "unat (fraction a) = 0" by (simp add: isNaN_def)
    with True show ?thesis by (simp add: mag_def)
  next
    case False
    with unat_exponent_lt [of "exponent a"] have "unat (exponent a) - 1 \<le> 253" by simp
    then have "(2::nat) ^ (unat (exponent a) - 1) \<le> 2 ^ 253"
      by (rule power_increasing) simp
    moreover have "(if unat (exponent a) = 0 then 0 else 2 ^ 23) + unat (fraction a) \<le> (2 ^ 24 :: nat)"
      using unat_fraction_lt [of "fraction a"] by simp
    ultimately have "mag a \<le> 2 ^ 24 * 2 ^ 253"
      unfolding mag_def by (rule mult_le_mono [rotated])
    then show ?thesis by simp
  qed
qed

lemma mag_shape:
  "mag a < 2 ^ 23 \<or> (\<exists>m j. 2 ^ 23 \<le> m \<and> m < 2 ^ 24 \<and> mag a = m * 2 ^ j)"
proof (cases "unat (exponent a) = 0")
  case True
  then show ?thesis using unat_fraction_lt [of "fraction a"] by (simp add: mag_def)
next
  case False
  then have "mag a = (2 ^ 23 + unat (fraction a)) * 2 ^ (unat (exponent a) - 1)"
    by (simp add: mag_def)
  moreover have "2 ^ 23 + unat (fraction a) < (2 ^ 24 :: nat)"
    using unat_fraction_lt [of "fraction a"] by simp
  ultimately show ?thesis by (intro disjI2 exI conjI) (auto intro: le_add1)
qed

lemma no_value_between:
  fixes n m j k :: nat
  assumes n: "2 ^ 23 \<le> n" "n < 2 ^ 24" and m: "2 ^ 23 \<le> m" "m < 2 ^ 24"
    and lo: "n * 2 ^ k < m * 2 ^ j" and hi: "m * 2 ^ j < (n + 1) * 2 ^ k"
  shows False
proof -
  consider "j < k" | "k < j" | "j = k" by linarith
  then show False
  proof cases
    case 1
    then obtain d where k: "k = Suc (j + d)" using less_imp_Suc_add by blast
    have "m * 2 ^ j \<le> 2 ^ 24 * 2 ^ j" using m by simp
    also have "\<dots> = 2 ^ 23 * 2 ^ Suc j" by simp
    also have "\<dots> \<le> 2 ^ 23 * 2 ^ k" unfolding k by (simp add: power_add)
    also have "\<dots> \<le> n * 2 ^ k" using n by simp
    finally show False using lo by simp
  next
    case 2
    then obtain d where j: "j = Suc (k + d)" using less_imp_Suc_add by blast
    have "(n + 1) * 2 ^ k \<le> 2 ^ 24 * 2 ^ k" using n by simp
    also have "\<dots> = 2 ^ 23 * 2 ^ Suc k" by simp
    also have "\<dots> \<le> 2 ^ 23 * 2 ^ j" unfolding j by (simp add: power_add)
    also have "\<dots> \<le> m * 2 ^ j" using m by simp
    finally show False using hi by simp
  next
    case 3
    from lo 3 have "n < m" by simp
    moreover from hi 3 have "m * 2 ^ k < (n + 1) * 2 ^ k" by simp
    then have "m < n + 1" by (metis mult_less_cancel2)
    ultimately show False by simp
  qed
qed

lemma round_small: "p < 2 ^ 24 \<Longrightarrow> mag (round_nat s p) = p"
proof -
  assume p: "p < 2 ^ 24"
  then have r: "round_nat s p = encode s p 0"
    by (simp add: round_nat_def round_ratio_def Let_def)
  show ?thesis
  proof (cases "p < 2 ^ 23")
    case True
    then show ?thesis unfolding r by (simp add: mag_encode_small)
  next
    case False
    then have "2 ^ 23 \<le> p" by simp
    from mag_encode_normal [OF this p, of 0 s] show ?thesis unfolding r by simp
  qed
qed

lemma round_lower:
  assumes nn: "\<not> isNaN a" and le: "mag a \<le> p"
  shows "mag a \<le> mag (round_nat s p)"
proof (cases "p < 2 ^ 24")
  case True
  then show ?thesis using le by (simp add: round_small)
next
  case False
  then have p24: "2 ^ 24 \<le> p" by simp
  then have p0: "0 < p" by (simp add: less_le_trans [of 0 "2 ^ 24"])
  define b where "b = bitlength p"
  define k where "k = b - 24"
  have bb: "2 ^ (b - 1) \<le> p" "p < 2 ^ b"
    using bitlength_bounds [OF p0] by (simp_all add: b_def)
  have "(2::nat) ^ 24 < 2 ^ b" using p24 bb(2) by simp
  then have b24: "24 < b" by (simp only: power_strict_increasing_iff) 
  then have b: "b = 24 + k" "b - 1 = 23 + k" "0 < k" by (simp_all add: k_def)
  define n where "n = p div 2 ^ k"
  define r where "r = p mod 2 ^ k"
  define n' where "n' = (if 2 * r < 2 ^ k then n else if 2 ^ k < 2 * r then n + 1
                         else if even n then n else n + 1)"
  have rr: "round_nat s p = encode s n' k"
    using False by (simp add: round_nat_def round_ratio_def Let_def n'_def n_def r_def k_def b_def)
  have pn: "p = n * 2 ^ k + r"
    unfolding n_def r_def by (rule div_mult_mod_eq [symmetric])
  have rk: "r < 2 ^ k"
    by (simp add: r_def)
  have nlo: "2 ^ 23 \<le> n"
  proof -
    have "2 ^ 23 * 2 ^ k \<le> p" using bb(1) by (simp add: b power_add)
    then have "(2 ^ 23 * 2 ^ k) div 2 ^ k \<le> p div 2 ^ k" by (rule div_le_mono)
    then show ?thesis by (simp add: n_def)
  qed
  have nhi: "n < 2 ^ 24"
  proof -
    have "p < 2 ^ 24 * 2 ^ k" using bb(2) by (simp add: b power_add)
    then show ?thesis by (simp add: n_def less_mult_imp_div_less)
  qed
  have n'n: "n \<le> n'" "n' \<le> n + 1" by (simp_all add: n'_def)
  show ?thesis
  proof (cases "encode s n' k = Inf32 s")
    case True
    then show ?thesis using mag_le [OF nn] by (simp add: rr mag_Inf32)
  next
    case notinf: False
    have n'lo: "\<not> n' < 2 ^ 23" using nlo n'n by simp
    have val: "mag (encode s n' k) = n' * 2 ^ k"
    proof (cases "n' = 2 ^ 24")
      case True
      with notinf have k2: "k + 2 < 255" by (auto simp: encode_def split: if_splits)
      show ?thesis unfolding True by (rule mag_encode_top [OF k2])
    next
      case False
      with n'n nhi have n'hi: "n' < 2 ^ 24" by simp
      from notinf n'lo False have k1: "k + 1 < 255" by (auto simp: encode_def split: if_splits)
      from n'lo have "2 ^ 23 \<le> n'" by simp
      then show ?thesis using n'hi k1 by (rule mag_encode_normal)
    qed
    show ?thesis
    proof (rule ccontr)
      assume "\<not> mag a \<le> mag (round_nat s p)"
      then have lt: "n' * 2 ^ k < mag a" by (simp add: rr val)
      have "n * 2 ^ k \<le> n' * 2 ^ k" using n'n(1) by (rule mult_le_mono1)
      then have lo: "n * 2 ^ k < mag a" using lt by (rule le_less_trans)
      have hi: "mag a < (n + 1) * 2 ^ k" using le pn rk by simp
      have "2 ^ 23 * 1 \<le> 2 ^ 23 * (2::nat) ^ k" by (rule mult_le_mono2) simp
      also have "\<dots> \<le> n * 2 ^ k" using nlo by (rule mult_le_mono1)
      also note lo
      finally have big: "2 ^ 23 < mag a" by simp
      with mag_shape [of a] obtain m j where m: "2 ^ 23 \<le> m" "m < 2 ^ 24" "mag a = m * 2 ^ j"
        by auto
      from no_value_between [OF nlo nhi m(1,2)] lo hi m(3) show False by simp
    qed
  qed
qed


lemma notNaN_round_nat: "\<not> isNaN (round_nat s p)"
  by (simp add: round_nat_def notNaN_round)

lemma sign_round_nat: "sign (round_nat s p) = s"
  by (simp add: round_nat_def sign_round)

lemma sval_nonneg_mag: "0 \<le> sval a \<Longrightarrow> sval a = int (mag a)"
  by (auto simp: sval_def split: if_splits)

lemma f32_zero_le_iff: "(0 \<le> a) = (\<not> isNaN a \<and> 0 \<le> sval a)"
  by (simp add: less_eq_float32_def f32_le_def zero_float32_def isNaN_def sval_def mag_def)

lemma f32_le_iff: "(a \<le> b) = (\<not> isNaN a \<and> \<not> isNaN b \<and> sval a \<le> sval b)"
  by (simp add: less_eq_float32_def f32_le_def)

lemma isInf_mag: "isInf a \<Longrightarrow> mag a = 2 ^ 277"
  by (simp add: isInf_def mag_def)

lemma isInf_notNaN: "isInf a \<Longrightarrow> \<not> isNaN a"
  by (simp add: isInf_def isNaN_def)

theorem f32_add_nonneg:
  fixes a c :: float32
  assumes a: "0 \<le> a" and c: "0 \<le> c"
  shows "a \<le> a + c \<and> 0 \<le> a + c"
proof -
  from a c have nn: "\<not> isNaN a" "\<not> isNaN c" and pos: "0 \<le> sval a" "0 \<le> sval c"
    by (simp_all add: f32_zero_le_iff)
  have va: "sval a = int (mag a)" and vc: "sval c = int (mag c)"
    using pos by (simp_all add: sval_nonneg_mag)
  have sa: "isInf a \<Longrightarrow> \<not> sign a" and sc: "isInf c \<Longrightarrow> \<not> sign c"
    using pos by (auto simp: sval_def isInf_mag split: if_splits)
  have goal: "\<not> isNaN (a + c) \<and> sval a \<le> sval (a + c)"
  proof (cases "isInf a")
    case True
    then have "a + c = a" using nn sa sc by (auto simp: plus_float32_def f32_add_def)
    then show ?thesis using nn by simp
  next
    case fa: False
    show ?thesis
    proof (cases "isInf c")
      case True
      then have "a + c = c" using nn fa by (simp add: plus_float32_def f32_add_def)
      moreover have "sval a \<le> sval c"
        using mag_le [OF nn(1)] True by (simp add: va vc isInf_mag)
      ultimately show ?thesis using nn by simp
    next
      case fc: False
      show ?thesis
      proof (cases "sval a + sval c = 0")
        case True
        then have "a + c = Float32 (sign a \<and> sign c) 0 0"
          using nn fa fc by (simp add: plus_float32_def f32_add_def)
        moreover from True pos have "sval a = 0" by simp
        ultimately show ?thesis by (simp add: isNaN_def sval_def mag_def)
      next
        case False
        with pos have S: "0 < sval a + sval c" by simp
        have r: "a + c = round_nat False (mag a + mag c)"
          using nn fa fc False S by (simp add: plus_float32_def f32_add_def va vc nat_add_distrib)
        have "mag a \<le> mag (round_nat False (mag a + mag c))"
          using nn(1) by (rule round_lower) simp
        then show ?thesis
          by (simp add: r notNaN_round_nat va sval_def sign_round_nat)
      qed
    qed
  qed
  then have "a \<le> a + c" using nn by (simp add: f32_le_iff)
  moreover from goal pos have "0 \<le> a + c" by (simp add: f32_zero_le_iff)
  ultimately show ?thesis by simp
qed

lemma f32_of_int_10000000: "f32_of_int 10000000 = Float32 False 150 1611392"
  by (simp add: f32_of_int_def round_nat_def round_ratio_def encode_def Let_def)

lemmas f32_compare = f32_of_int_10000000 less_eq_float32_def less_float32_def f32_le_def
  f32_lt_def zero_float32_def one_float32_def isNaN_def sval_def mag_def


lemma init_distances_nonneg:
  "(0::float32) \<le> mSpatialDistance init \<and> (0::float32) \<le> mLanguageDistance init"
  by (simp add: init_def f32_le_iff zero_float32_def isNaN_def sval_def mag_def)

text \<open>
  C7. In binary32 arithmetic: a cost addition (\<^verbatim>\<open>addDistance\<close>, or \<^verbatim>\<open>addCost\<close>
  which calls it) with spatial and language cost arguments that compare \<^verbatim>\<open>>= 0.0f\<close>,
  on a scoring state whose two accumulated distances compare \<^verbatim>\<open>>= 0.0f\<close>, leaves each
  distance greater than or equal to its value before the addition, and again
  \<^verbatim>\<open>>= 0.0f\<close>. The distances of \<^verbatim>\<open>init()\<close> are \<open>0\<close> (\<open>init_distances_nonneg\<close>), so
  every state built from it by such additions is covered: from parent to child the
  distances never decrease. (A distance that is NaN compares \<^verbatim>\<open>>=\<close> to nothing, itself
  included; no such state arises from non-negative costs.)
\<close>

theorem distances_never_decrease:
  fixes s :: "float32 DicNodeStateScoring"
  assumes "0 \<le> sc" "0 \<le> lc" "0 \<le> mSpatialDistance s" "0 \<le> mLanguageDistance s"
  shows "mSpatialDistance s \<le> mSpatialDistance (addDistance tf sc lc dn n tii s)
       \<and> mLanguageDistance s \<le> mLanguageDistance (addDistance tf sc lc dn n tii s)
       \<and> mSpatialDistance s \<le> mSpatialDistance (addCost tf sc lc dn n tii e p s)
       \<and> mLanguageDistance s \<le> mLanguageDistance (addCost tf sc lc dn n tii e p s)
       \<and> 0 \<le> mSpatialDistance (addCost tf sc lc dn n tii e p s)
       \<and> 0 \<le> mLanguageDistance (addCost tf sc lc dn n tii e p s)"
  using f32_add_nonneg [OF assms(3) assms(1)] f32_add_nonneg [OF assms(4) assms(2)]
  by (simp add: addCost_distances addDistance_fields)

theorem distances_never_decrease_witness:
  "(0::float32) \<le> Float32 False 127 0
   \<and> (0::float32) \<le> Float32 False 126 0
   \<and> (0::float32) \<le> mSpatialDistance (init :: float32 DicNodeStateScoring)
   \<and> (0::float32) \<le> mLanguageDistance (init :: float32 DicNodeStateScoring)
   \<and> mSpatialDistance (addCost f32_of_int (Float32 False 127 0) (Float32 False 126 0) True 1 1
         False False init) = Float32 False 127 0
   \<and> mLanguageDistance (addCost f32_of_int (Float32 False 127 0) (Float32 False 126 0) True 1 1
         False False init) = Float32 False 126 0
   \<and> mSpatialDistance (init :: float32 DicNodeStateScoring)
        \<le> mSpatialDistance (addCost f32_of_int (Float32 False 127 0) (Float32 False 126 0) True 1 1
             False False init)
   \<and> mLanguageDistance (init :: float32 DicNodeStateScoring)
        \<le> mLanguageDistance (addCost f32_of_int (Float32 False 127 0) (Float32 False 126 0) True 1 1
             False False init)"
proof -
  have h: "(0::float32) \<le> Float32 False 127 0" "(0::float32) \<le> Float32 False 126 0"
    "(0::float32) \<le> mSpatialDistance (init :: float32 DicNodeStateScoring)"
    "(0::float32) \<le> mLanguageDistance (init :: float32 DicNodeStateScoring)"
    by (simp_all add: init_def f32_le_iff zero_float32_def isNaN_def sval_def mag_def)
  have v: "(0::float32) + Float32 False 127 0 = Float32 False 127 0"
    "(0::float32) + Float32 False 126 0 = Float32 False 126 0"
    by (simp_all add: f32_defs)
  show ?thesis
    using h distances_never_decrease [OF h, of f32_of_int True 1 1 False False] v
    by (simp add: addCost_distances init_def)
qed

section \<open>Properties of the suggest driver\<close>

lemmas ex_defs = exSuggest_def exSession_def exDicNode_def exWeighting_def exScoring_def
  exTraversal_def exRoot_def exChildWords_def exFresh_def exNoOutputs_def
  exTooLong_def exA_def exAB_def exTyping_def exTypingAB_def exContinuing_def f32_compare

lemmas drv_defs = expandCurrentDicNodes_def expandDicNode_def processDicNodeAsMatch_def
  weightChildNode_def processExpandedDicNode_def processTerminalDicNode_def
  initializeSearch_def Let_def MIN_CONTINUOUS_SUGGESTION_INPUT_SIZE_def

lemmas ex_variant_defs = exCorrecting_def exAtMax_def exFull_def

lemmas out_defs = outputSuggestions_def outputTerminal_def finalScore_def
  isForceCommitMultiWords_def isValidWord_def

subsection \<open>The loops\<close>

lemma expandLoop_exceeding:
  assumes "activeSize (SESSION E) s > 0"
    and "isTotalInputSizeExceedingLimit (DICNODE E) (fst (popActive (SESSION E) s))"
  shows "expandLoop E n c s = Some (snd (popActive (SESSION E) s))"
  using assms by (subst expandLoop.simps) (auto split: prod.split)


lemma searchLoop_leaves_no_active:
  fixes E :: "('f::ord, 'n, 's, 'a, 'p) Suggest"
  assumes "searchLoop E n s = Some s'"
  shows "\<not> activeSize (SESSION E) s' > 0"
proof (rule searchLoop.raw_induct
    [where P = "\<lambda>E n s s'. \<not> activeSize (SESSION E) s' > 0", OF _ assms])
  fix loop :: "('f, 'n, 's, 'a, 'p) Suggest \<Rightarrow> int \<Rightarrow> 's \<Rightarrow> 's option"
    and E :: "('f, 'n, 's, 'a, 'p) Suggest" and n s s'
  assume IH: "\<And>n s b y. loop n s b = Some y \<Longrightarrow> \<not> 0 < activeSize (SESSION n) y"
    and step: "(if 0 < activeSize (SESSION E) s
                then case expandCurrentDicNodes E s of None \<Rightarrow> None
                     | Some s1 \<Rightarrow> loop E n (advanceInputIndex (SESSION E) n
                                              (advanceActiveDicNodes (SESSION E) s1))
                else Some s) = Some s'"
  show "\<not> 0 < activeSize (SESSION E) s'"
  proof (cases "0 < activeSize (SESSION E) s")
    case True
    with step obtain s1 where
      "loop E n (advanceInputIndex (SESSION E) n (advanceActiveDicNodes (SESSION E) s1)) = Some s'"
      by (auto split: option.splits)
    then show ?thesis by (rule IH)
  next
    case False
    with step show ?thesis by simp
  qed
qed

text \<open>
  C1. The claim: a popped node that exceeds the input size limit is dropped alone, and
  the loop goes on with the rest of the active queue. The code executes \<^verbatim>\<open>return\<close>
  there (\<open>expandLoop_exceeding\<close>): the nodes still in the active queue are not expanded
  in this round, and \<^verbatim>\<open>getSuggestions\<close> then replaces the active queue by the
  next-active one. Evaluated on the instance, with the typed input \<open>ab\<close> and one point
  consumed: an active queue that pops a too long node (a path of 46 code points) and then
  the node \<open>a\<close> is left holding \<open>a\<close>, unexpanded, and the search ends with no terminal;
  the node \<open>a\<close> alone is expanded, and the search ends with the terminal \<open>ab\<close>.
\<close>

theorem expandCurrentDicNodes_returns_at_exceeding_node:
  "isTotalInputSizeExceedingLimit (DICNODE (exSuggest False True)) exTooLong
   \<and> \<not> isTotalInputSizeExceedingLimit (DICNODE (exSuggest False True)) exA
   \<and> expandCurrentDicNodes (exSuggest False True) (exTypingAB\<lparr> exActive := [exTooLong, exA] \<rparr>)
     = Some (exTypingAB\<lparr> exActive := [exA] \<rparr>)
   \<and> expandCurrentDicNodes (exSuggest False True) (exTypingAB\<lparr> exActive := [exA] \<rparr>)
     = Some (exTypingAB\<lparr> exTerminals := [exAB\<lparr> exInputIndex := 2 \<rparr>] \<rparr>)
   \<and> searchLoop (exSuggest False True) 2 (exTypingAB\<lparr> exActive := [exTooLong, exA] \<rparr>)
     = Some exTypingAB
   \<and> searchLoop (exSuggest False True) 2 (exTypingAB\<lparr> exActive := [exA] \<rparr>)
     = Some (exTypingAB\<lparr> exTerminals := [exAB\<lparr> exInputIndex := 2 \<rparr>] \<rparr>)"
  by (simp add: drv_defs searchLoop.simps expandLoop.simps ex_defs)

subsection \<open>initializeSearch\<close>


lemma initializeSearch_continuous:
  assumes "proximityInfoState0_isUsed (SESSION E) s"
    and "getInputSize (SESSION E) s > MIN_CONTINUOUS_SUGGESTION_INPUT_SIZE"
    and "isContinuousSuggestionPossible (SESSION E) s"
  shows "initializeSearch E s k =
     (if allowPartialCommit (TRAVERSAL E) \<or> k = 0 then continueSearch (SESSION E) s
      else setPartiallyCommited (SESSION E)
             (continueSearch (SESSION E)
               (setPrevWordPos (SESSION E)
                  (getPrevWordNodePos (DICNODE E) (fst (setCommitPoint (SESSION E) k s)))
                  (snd (setCommitPoint (SESSION E) k s)))))"
  using assms by (simp add: initializeSearch_def Let_def split: prod.split)

text \<open>
  C4, as stated: whenever continuous suggestion is possible and the commit point \<open>k\<close> is
  positive, the search is continued after \<^verbatim>\<open>setCommitPoint(k)\<close>. It fails when the
  traversal policy allows partial commit: \<^verbatim>\<open>initializeSearch\<close> then resets the commit
  point to 0 and only continues the search. The instance with \<open>allowPartialCommit\<close> set,
  at commit point 2:
\<close>

theorem initializeSearch_commit_point_counterexample:
  "proximityInfoState0_isUsed (SESSION (exSuggest True True)) exContinuing
   \<and> getInputSize (SESSION (exSuggest True True)) exContinuing > MIN_CONTINUOUS_SUGGESTION_INPUT_SIZE
   \<and> isContinuousSuggestionPossible (SESSION (exSuggest True True)) exContinuing
   \<and> (0::int) < 2
   \<and> initializeSearch (exSuggest True True) exContinuing 2
       = continueSearch (SESSION (exSuggest True True)) exContinuing
   \<and> initializeSearch (exSuggest True True) exContinuing 2
       \<noteq> setPartiallyCommited (SESSION (exSuggest True True))
           (continueSearch (SESSION (exSuggest True True))
             (setPrevWordPos (SESSION (exSuggest True True))
               (getPrevWordNodePos (DICNODE (exSuggest True True))
                 (fst (setCommitPoint (SESSION (exSuggest True True)) 2 exContinuing)))
               (snd (setCommitPoint (SESSION (exSuggest True True)) 2 exContinuing))))"
  by (simp add: initializeSearch_def Let_def MIN_CONTINUOUS_SUGGESTION_INPUT_SIZE_def
        ex_defs)

text \<open>
  C4, amended. When the proximity state is used, the input size is above
  \<^verbatim>\<open>MIN_CONTINUOUS_SUGGESTION_INPUT_SIZE\<close> and continuous suggestion is possible:
  \<^verbatim>\<open>initializeSearch\<close> performs \<^verbatim>\<open>continueSearch\<close> alone when the commit point is 0
  or the traversal policy allows partial commit; when the commit point \<open>k\<close> is positive
  and the policy does not allow partial commit, it performs \<^verbatim>\<open>setCommitPoint(k)\<close>, sets
  the session's previous-word position from the node that returns, performs
  \<^verbatim>\<open>continueSearch\<close> and marks the session partially committed.
\<close>

theorem initializeSearch_continuous_suggestion:
  assumes "proximityInfoState0_isUsed (SESSION E) s"
    and "getInputSize (SESSION E) s > MIN_CONTINUOUS_SUGGESTION_INPUT_SIZE"
    and "isContinuousSuggestionPossible (SESSION E) s"
  shows "(commitPoint = 0 \<or> allowPartialCommit (TRAVERSAL E) \<longrightarrow>
            initializeSearch E s commitPoint = continueSearch (SESSION E) s)
     \<and> (commitPoint > 0 \<and> \<not> allowPartialCommit (TRAVERSAL E) \<longrightarrow>
            initializeSearch E s commitPoint =
              setPartiallyCommited (SESSION E)
                (continueSearch (SESSION E)
                  (setPrevWordPos (SESSION E)
                     (getPrevWordNodePos (DICNODE E)
                        (fst (setCommitPoint (SESSION E) commitPoint s)))
                     (snd (setCommitPoint (SESSION E) commitPoint s)))))"
  using assms by (simp add: initializeSearch_continuous)

theorem initializeSearch_continuous_suggestion_witness:
  "proximityInfoState0_isUsed (SESSION (exSuggest False True)) exContinuing
   \<and> getInputSize (SESSION (exSuggest False True)) exContinuing > MIN_CONTINUOUS_SUGGESTION_INPUT_SIZE
   \<and> isContinuousSuggestionPossible (SESSION (exSuggest False True)) exContinuing
   \<and> \<not> allowPartialCommit (TRAVERSAL (exSuggest False True))
   \<and> initializeSearch (exSuggest False True) exContinuing 0
       = exContinuing\<lparr> exActive := [exA] \<rparr>
   \<and> initializeSearch (exSuggest False True) exContinuing 2
       = exContinuing\<lparr> exActive := [exA], exPartiallyCommited := True, exPrevWordPos := 1 \<rparr>
   \<and> allowPartialCommit (TRAVERSAL (exSuggest True True))
   \<and> initializeSearch (exSuggest True True) exContinuing 2
       = exContinuing\<lparr> exActive := [exA] \<rparr>"
  using initializeSearch_continuous_suggestion [of "exSuggest False True" exContinuing 0]
        initializeSearch_continuous_suggestion [of "exSuggest False True" exContinuing 2]
        initializeSearch_continuous_suggestion [of "exSuggest True True" exContinuing 2]
  by (simp add: MIN_CONTINUOUS_SUGGESTION_INPUT_SIZE_def ex_defs)

subsection \<open>Nodes at the maximum distance\<close>




subsection \<open>outputSuggestions\<close>

text \<open>
  C2, as stated: the third argument of \<^verbatim>\<open>calculateFinalScore\<close> is true only when partial
  commit is allowed and the session is partially committed or the input has at least 16
  points and the terminal has multiple words. It fails: the code passes
  \<^verbatim>\<open>isForceCommitMultiWords || (isValidWord && SCORING->doesAutoCorrectValidWord())\<close>.
  On the instance (partial commit not allowed, valid words auto-corrected) the terminal
  \<open>a\<close> is scored with the flag set.
\<close>

theorem finalScore_force_flag_counterexample:
  "\<not> (allowPartialCommit (TRAVERSAL (exSuggest False True))
        \<and> (isPartiallyCommited (SESSION (exSuggest False True)) exTyping
            \<or> (getInputSize (SESSION (exSuggest False True)) exTyping \<ge> 16
                \<and> hasMultipleWords (DICNODE (exSuggest False True)) exA)))
   \<and> finalScore (exSuggest False True) exTyping 1 (- 1) NOT_A_DOUBLE_LETTER 0 exA
       = calculateFinalScore (SCORING (exSuggest False True)) 0 1 True
   \<and> calculateFinalScore (SCORING (exSuggest False True)) 0 1 True
       \<noteq> calculateFinalScore (SCORING (exSuggest False True)) 0 1 False"
  by (simp add: finalScore_def isForceCommitMultiWords_def isValidWord_def Let_def
        ex_defs)

text \<open>
  C2, amended. For every terminal the output loop reaches, the third argument passed to
  \<^verbatim>\<open>calculateFinalScore\<close> is true exactly when partial commit is allowed and the session
  is partially committed or the input has at least 16 points and the terminal has multiple
  words, or when the terminal is a valid word (probability above 0, not blacklisted or
  not-a-word) and the scoring policy auto-corrects valid words. The score so computed is
  the one the loop folds into \<open>maxScore\<close>.
\<close>

theorem finalScore_force_flag:
  fixes E :: "('f::plus, 'n, 's, 'a, 'p) Suggest"
  shows
  "finalScore E s lw dlIndex dlLevel i t =
     calculateFinalScore (SCORING E)
       (getCompoundDistanceW_node (DICNODE E) t lw
          + getDoubleLetterDemotionDistanceCost (SCORING E) i dlIndex dlLevel)
       (getInputSize (SESSION E) s)
       ((allowPartialCommit (TRAVERSAL E)
           \<and> (isPartiallyCommited (SESSION E) s
               \<or> (getInputSize (SESSION E) s \<ge> 16 \<and> hasMultipleWords (DICNODE E) t)))
        \<or> (getProbability (DICNODE E) t > 0
            \<and> \<not> isBlacklistedOrNotAWord (DICNODE E) (TerminalAttributes (DICNODE E) s t)
            \<and> doesAutoCorrectValidWord (SCORING E)))
   \<and> maxScore (outputTerminal E s lw dlIndex dlLevel i t st)
       = max (maxScore st) (finalScore E s lw dlIndex dlLevel i t)"
proof -
  have "maxScore (outputTerminal E s lw dlIndex dlLevel i t st)
          = max (maxScore st) (finalScore E s lw dlIndex dlLevel i t)"
    by (simp add: outputTerminal_def Let_def split: prod.split)
  then show ?thesis
    by (simp add: finalScore_def isForceCommitMultiWords_def isValidWord_def Let_def
          MIN_LEN_FOR_MULTI_WORD_AUTOCORRECT_def conj_assoc)
qed

text \<open>
  The output loop on a terminal that is not a valid word. The body of the loop writes
  nothing before the shortcut step; a loop that finds the output full does nothing more;
  the loop over a list of terminals is the loop over its first part followed by the loop
  over the rest.
\<close>

lemma outputTerminal_invalid:
  fixes E :: "('f::plus, 'n, 's, 'a, 'p) Suggest"
  assumes "getProbability (DICNODE E) t \<le> 0
           \<or> isBlacklistedOrNotAWord (DICNODE E) (TerminalAttributes (DICNODE E) s t)"
  shows "outputTerminal E s lw dlIndex dlLevel i t st =
     (let score = finalScore E s lw dlIndex dlLevel i t;
          sc = outputShortcuts (DICNODE E) (TerminalAttributes (DICNODE E) s t)
                 (outputWordIndex st) score (outputs st) (sameAsTyped (TRAVERSAL E) s t)
      in st\<lparr> maxScore := max (maxScore st) score,
              outputWordIndex := fst sc, outputs := snd sc \<rparr>)"
proof -
  have "\<not> isValidWord E s t" using assms by (auto simp: isValidWord_def)
  then show ?thesis
    by (simp add: outputTerminal_def Let_def split: prod.split)
qed

lemma outputTerminals_full:
  fixes E :: "('f::plus, 'n, 's, 'a, 'p) Suggest"
  shows "\<not> outputWordIndex st < MAX_RESULTS E
    \<Longrightarrow> outputTerminals E s lw dlIndex dlLevel i ts st = st"
  by (cases ts) simp_all

lemma outputTerminals_append:
  fixes E :: "('f::plus, 'n, 's, 'a, 'p) Suggest"
  shows "outputTerminals E s lw dlIndex dlLevel i (pre @ rest) st =
     outputTerminals E s lw dlIndex dlLevel (i + int (length pre)) rest
       (outputTerminals E s lw dlIndex dlLevel i pre st)"
proof (induction pre arbitrary: i st)
  case Nil
  show ?case by simp
next
  case (Cons a pre)
  show ?case
  proof (cases "outputWordIndex st < MAX_RESULTS E")
    case True
    then show ?thesis using Cons.IH [of "i + 1"] by (simp add: ac_simps)
  next
    case False
    then show ?thesis by (simp add: outputTerminals_full)
  qed
qed

lemma outputTerminals_invalid:
  fixes E :: "('f::plus, 'n, 's, 'a, 'p) Suggest"
  assumes "getProbability (DICNODE E) t \<le> 0
           \<or> isBlacklistedOrNotAWord (DICNODE E) (TerminalAttributes (DICNODE E) s t)"
  shows "outputTerminals E s lw dlIndex dlLevel i (pre @ t # post) st =
     (let st1 = outputTerminals E s lw dlIndex dlLevel i pre st;
          j = i + int (length pre);
          score = finalScore E s lw dlIndex dlLevel j t;
          sc = outputShortcuts (DICNODE E) (TerminalAttributes (DICNODE E) s t)
                 (outputWordIndex st1) score (outputs st1) (sameAsTyped (TRAVERSAL E) s t)
      in if outputWordIndex st1 < MAX_RESULTS E
         then outputTerminals E s lw dlIndex dlLevel (j + 1) post
                (st1\<lparr> maxScore := max (maxScore st1) score,
                      outputWordIndex := fst sc, outputs := snd sc \<rparr>)
         else st1)"
  by (simp add: outputTerminals_append outputTerminal_invalid [OF assms] Let_def)

lemma popTerminals_2:
  "popTerminals E 2 s = popTerminals E (Suc (Suc 0)) s"
  by (simp only: numeral_2_eq_2)

text \<open>
  C8, as stated: a terminal with probability 0 or flagged blacklisted or not-a-word is not
  emitted as a word, but its shortcut list is still emitted by the shortcut output step.
  It fails for a terminal that the output loop does not reach: the loop runs while
  \<^verbatim>\<open>terminalIndex < terminalSize && outputWordIndex < MAX_RESULTS\<close> (lines 152-153), and
  once the output word index has reached \<^verbatim>\<open>MAX_RESULTS\<close> the terminals that are left,
  valid or not, are not looked at. On the instance \<open>exFull\<close> (\<^verbatim>\<open>MAX_RESULTS\<close> 2, a most
  probable string at index 0) with the terminals \<open>a\<close> and \<open>ab\<close>: \<open>ab\<close> is flagged
  not-a-word and its shortcut step would write an entry, but \<^verbatim>\<open>outputSuggestions\<close>
  returns 2 and the only entry the loop has written is the word \<open>a\<close> at index 1 (type
  \<^verbatim>\<open>KIND_CORRECTION\<close>, which is 1 here; a shortcut has type 7).
\<close>

theorem invalid_terminal_after_full_output_counterexample:
  "isBlacklistedOrNotAWord (DICNODE exFull) (TerminalAttributes (DICNODE exFull) exTyping exAB)
   \<and> popTerminals exFull 2 (exTyping\<lparr> exTerminals := [exA, exAB] \<rparr>) = ([exA, exAB], exTyping)
   \<and> fst (outputShortcuts (DICNODE exFull) (TerminalAttributes (DICNODE exFull) exTyping exAB)
            2 1 exNoOutputs False) = 3
   \<and> fst (outputSuggestions exFull (exTyping\<lparr> exTerminals := [exA, exAB] \<rparr>) exNoOutputs) = 2
   \<and> outputTypes (fst (snd (outputSuggestions exFull (exTyping\<lparr> exTerminals := [exA, exAB] \<rparr>)
        exNoOutputs))) = (outputTypes exNoOutputs) (1 := 1)
   \<and> frequencies (fst (snd (outputSuggestions exFull (exTyping\<lparr> exTerminals := [exA, exAB] \<rparr>)
        exNoOutputs))) = (frequencies exNoOutputs) (1 := 2)"
  by (simp add: out_defs popTerminals_2 ex_variant_defs ex_defs)

text \<open>
  C8, amended. During emission, a terminal with probability 0 (or below) or flagged
  blacklisted or not-a-word that the output loop reaches while the output word index is
  below \<^verbatim>\<open>MAX_RESULTS\<close> is not emitted as a word suggestion: it contributes no entry to
  the output words, frequencies or types at its own position and leaves the output word
  index as it is; its shortcut list is then emitted by the shortcut output step,
  \<^verbatim>\<open>ShortcutUtils::outputShortcuts\<close>, called with the terminal's attributes, that index
  and the terminal's final score, and what the step returns is the index and the buffers
  the loop goes on with. When the output word index has reached \<^verbatim>\<open>MAX_RESULTS\<close>
  before the terminal, the loop ends there and neither the terminal nor its shortcuts are
  emitted.

  Formally, for \<^verbatim>\<open>outputSuggestions\<close> as a whole: let the popped terminals be
  \<open>pre @ t # post\<close> with \<open>t\<close> such a terminal, and \<open>st1\<close> the index, maximal score and
  buffers after the loop over \<open>pre\<close>. Then the result of \<^verbatim>\<open>outputSuggestions\<close> is the
  one computed from the loop over \<open>post\<close> started in \<open>st1\<close> with only the score folded
  into the maximal score and the index and buffers replaced by those the shortcut step
  returns, or from \<open>st1\<close> itself when the output is full.
\<close>

theorem invalid_terminal_in_output_loop:
  fixes E :: "('f::plus, 'n, 's, 'a, 'p) Suggest"
  assumes invalid: "getProbability (DICNODE E) t \<le> 0
           \<or> isBlacklistedOrNotAWord (DICNODE E) (TerminalAttributes (DICNODE E) s1 t)"
    and popped: "popTerminals E (nat (min (MAX_RESULTS E) (terminalSize (SESSION E) s))) s
                   = (pre @ t # post, s1)"
  shows "outputSuggestions E s outs =
     (let terminals = pre @ t # post;
          n = min (MAX_RESULTS E) (terminalSize (SESSION E) s);
          lw = getAdjustedLanguageWeight (SCORING E) s1 terminals n;
          mps = getMostProbableString (SCORING E) s1 n lw outs;
          dl = searchWordWithDoubleLetter (SCORING E) terminals n (- 1) NOT_A_DOUBLE_LETTER;
          st0 = \<lparr> outputWordIndex = (if fst mps then 1 else 0), maxScore = S_INT_MIN E,
                  outputs = snd mps \<rparr>;
          st1 = outputTerminals E s1 lw (fst dl) (snd dl) 0 pre st0;
          score = finalScore E s1 lw (fst dl) (snd dl) (int (length pre)) t;
          sc = outputShortcuts (DICNODE E) (TerminalAttributes (DICNODE E) s1 t)
                 (outputWordIndex st1) score (outputs st1) (sameAsTyped (TRAVERSAL E) s1 t);
          st = (if outputWordIndex st1 < MAX_RESULTS E
                then outputTerminals E s1 lw (fst dl) (snd dl) (int (length pre) + 1) post
                       (st1\<lparr> maxScore := max (maxScore st1) score,
                             outputWordIndex := fst sc, outputs := snd sc \<rparr>)
                else st1)
      in (outputWordIndex st,
          (if fst mps
           then safetyNetForMostProbableString (SCORING E) n (maxScore st) (outputs st)
           else outputs st),
          s1))"
  by (simp add: outputSuggestions_def popped outputTerminals_invalid [OF invalid] Let_def
        case_prod_beta)

theorem invalid_terminal_in_output_loop_witness:
  "isBlacklistedOrNotAWord (DICNODE (exSuggest False True))
     (TerminalAttributes (DICNODE (exSuggest False True)) exTyping exAB)
   \<and> popTerminals (exSuggest False True) 2 (exTyping\<lparr> exTerminals := [exA, exAB] \<rparr>)
       = ([exA, exAB], exTyping)
   \<and> outputSuggestions (exSuggest False True) (exTyping\<lparr> exTerminals := [exA, exAB] \<rparr>)
        exNoOutputs
      = (2, exNoOutputs
            \<lparr> outputCodePoints := (outputCodePoints exNoOutputs)
                 (0 := 97, 48 := 97, 49 := 98, 50 := 99),
              frequencies := (frequencies exNoOutputs) (0 := 2, 1 := 1),
              outputTypes := (outputTypes exNoOutputs) (0 := 1, 1 := 7) \<rparr>, exTyping)"
proof -
  have b: "isBlacklistedOrNotAWord (DICNODE (exSuggest False True))
     (TerminalAttributes (DICNODE (exSuggest False True)) exTyping exAB)"
    by (simp add: ex_defs)
  have p: "popTerminals (exSuggest False True)
      (nat (min (MAX_RESULTS (exSuggest False True))
         (terminalSize (SESSION (exSuggest False True)) (exTyping\<lparr> exTerminals := [exA, exAB] \<rparr>))))
      (exTyping\<lparr> exTerminals := [exA, exAB] \<rparr>) = ([exA] @ exAB # [], exTyping)"
    by (simp add: popTerminals_2 ex_defs)
  show ?thesis
    using b p invalid_terminal_in_output_loop [OF disjI2 [OF b] p, of exNoOutputs]
    by (simp add: finalScore_def isForceCommitMultiWords_def isValidWord_def outputTerminal_def
        Let_def fun_eq_iff ex_defs)
qed

subsection \<open>getSuggestions\<close>





end
